theory Spec2Isabelle
  imports Main "HOL-Library.AList"
begin

section \<open>Strings\<close>

text \<open>
  A JavaScript string is a sequence of UTF-16 code units. The bullet, the check marks and
  the result marker of the terminal output lie outside ASCII, so a string is a list of
  code units, each a natural number; \<open>length\<close>, \<open>take\<close> and \<open>drop\<close> then count what
  \<open>String.prototype.length\<close> and \<open>substring\<close> count.
\<close>

type_synonym jsstring = "nat list"

definition ascii :: "string \<Rightarrow> jsstring" where
  "ascii s = map of_char s"

definition BULLET :: nat where "BULLET = 9679"          \<comment> \<open>U+25CF\<close>
definition CHECKED :: nat where "CHECKED = 10003"       \<comment> \<open>U+2713\<close>
definition UNCHECKED :: nat where "UNCHECKED = 9744"    \<comment> \<open>U+2610\<close>
definition RESULT_MARK :: nat where "RESULT_MARK = 9151" \<comment> \<open>U+23BF\<close>
definition NL :: nat where "NL = 10"

text \<open>Character classes of the regular expressions.\<close>

definition is_digit :: "nat \<Rightarrow> bool" where
  "is_digit c = (48 \<le> c \<and> c \<le> 57)"

definition is_upper :: "nat \<Rightarrow> bool" where
  "is_upper c = (65 \<le> c \<and> c \<le> 90)"

definition is_lower :: "nat \<Rightarrow> bool" where
  "is_lower c = (97 \<le> c \<and> c \<le> 122)"

definition is_alpha :: "nat \<Rightarrow> bool" where
  "is_alpha c = (is_upper c \<or> is_lower c)"

text \<open>\<open>\w\<close> is \<open>[A-Za-z0-9_]\<close>.\<close>

definition is_word :: "nat \<Rightarrow> bool" where
  "is_word c = (is_alpha c \<or> is_digit c \<or> c = 95)"

text \<open>\<open>[\w-]\<close> and \<open>[a-zA-Z0-9_-]\<close> are the same class.\<close>

definition is_word_dash :: "nat \<Rightarrow> bool" where
  "is_word_dash c = (is_word c \<or> c = 45)"

text \<open>
  \<open>\s\<close>, which is also what \<open>trim\<close> removes: the white space and line terminator code
  units of ECMAScript.
\<close>

definition is_space :: "nat \<Rightarrow> bool" where
  "is_space c = (c = 9 \<or> c = 10 \<or> c = 11 \<or> c = 12 \<or> c = 13 \<or> c = 32 \<or> c = 160 \<or>
     c = 5760 \<or> (8192 \<le> c \<and> c \<le> 8202) \<or> c = 8232 \<or> c = 8233 \<or> c = 8239 \<or>
     c = 8287 \<or> c = 12288 \<or> c = 65279)"

text \<open>\<open>.\<close> is every code unit but the four line terminators.\<close>

definition is_line_terminator :: "nat \<Rightarrow> bool" where
  "is_line_terminator c = (c = 10 \<or> c = 13 \<or> c = 8232 \<or> c = 8233)"

definition is_dot :: "nat \<Rightarrow> bool" where
  "is_dot c = (\<not> is_line_terminator c)"

definition not_rparen :: "nat \<Rightarrow> bool" where
  "not_rparen c = (c \<noteq> 41)"

definition one_of :: "nat list \<Rightarrow> nat \<Rightarrow> bool" where
  "one_of cs c = (c \<in> set cs)"

text \<open>String operations of the source.\<close>

definition trim :: "jsstring \<Rightarrow> jsstring" where
  "trim s = rev (dropWhile is_space (rev (dropWhile is_space s)))"

definition startsWith :: "jsstring \<Rightarrow> jsstring \<Rightarrow> bool" where
  "startsWith s p = (take (length p) s = p)"

fun str_includes :: "jsstring \<Rightarrow> jsstring \<Rightarrow> bool" where
  "str_includes [] p = (p = [])"
| "str_includes (a # s) p = (startsWith (a # s) p \<or> str_includes s p)"

fun split_on :: "nat \<Rightarrow> jsstring \<Rightarrow> jsstring list" where
  "split_on c [] = [[]]"
| "split_on c (a # s) =
     (if a = c then [] # split_on c s
      else (case split_on c s of [] \<Rightarrow> [[a]] | l # ls \<Rightarrow> (a # l) # ls))"

text \<open>
  \<open>toLowerCase\<close> on the ASCII letters. The source applies it to a \<open>\w+\<close> capture only,
  which holds no other letters.
\<close>

definition toLowerCase :: "jsstring \<Rightarrow> jsstring" where
  "toLowerCase s = map (\<lambda>c. if is_upper c then c + 32 else c) s"

section \<open>Regular expressions\<close>

text \<open>
  The patterns of the source use literals, character classes, the greedy quantifiers
  \<open>*\<close> and \<open>+\<close> on a single class, an optional group, capture groups, alternation and
  the end anchor. A match is computed as JavaScript's backtracking matcher does: every
  way to match is listed in the matcher's order of preference (greedy: longest first;
  alternation: left first), and the first one is the result. A state is the text still
  to read and the captures so far.
\<close>

datatype regex =
    Eps
  | Eos
  | Lit jsstring
  | Cls "nat \<Rightarrow> bool"
  | Star "nat \<Rightarrow> bool"
  | Plus "nat \<Rightarrow> bool"
  | Opt regex
  | Grp nat regex
  | Seq regex regex
  | Alt regex regex

type_synonym captures = "nat \<Rightarrow> jsstring option"

fun rmatch :: "regex \<Rightarrow> jsstring \<times> captures \<Rightarrow> (jsstring \<times> captures) list" where
  "rmatch Eps x = [x]"
| "rmatch Eos (s, c) = (if s = [] then [(s, c)] else [])"
| "rmatch (Lit l) (s, c) = (if startsWith s l then [(drop (length l) s, c)] else [])"
| "rmatch (Cls p) (s, c) = (case s of [] \<Rightarrow> [] | a # t \<Rightarrow> if p a then [(t, c)] else [])"
| "rmatch (Star p) (s, c) =
     map (\<lambda>j. (drop j s, c)) (rev [0 ..< Suc (length (takeWhile p s))])"
| "rmatch (Plus p) (s, c) =
     map (\<lambda>j. (drop j s, c)) (rev [1 ..< Suc (length (takeWhile p s))])"
| "rmatch (Opt r) x = rmatch r x @ [x]"
| "rmatch (Grp i r) (s, c) =
     map (\<lambda>(t, c'). (t, c'(i \<mapsto> take (length s - length t) s))) (rmatch r (s, c))"
| "rmatch (Seq r1 r2) x = concat (map (rmatch r2) (rmatch r1 x))"
| "rmatch (Alt r1 r2) x = rmatch r1 x @ rmatch r2 x"

fun cat :: "regex list \<Rightarrow> regex" where
  "cat [] = Eps"
| "cat (r # rs) = Seq r (cat rs)"

text \<open>
  \<open>exec_at\<close> matches at the start of the text: it is \<open>String.prototype.match\<close> for a
  pattern that begins with \<open>^\<close> (without the \<open>m\<close> flag, \<open>^\<close> is the start of the text).
  The result is the captures of the first match and the text after it.
\<close>

definition exec_at :: "regex \<Rightarrow> jsstring \<Rightarrow> (jsstring \<times> captures) option" where
  "exec_at r s = (case rmatch r (s, Map.empty) of [] \<Rightarrow> None | x # _ \<Rightarrow> Some x)"

definition match_start :: "regex \<Rightarrow> jsstring \<Rightarrow> captures option" where
  "match_start r s = map_option snd (exec_at r s)"

text \<open>\<open>RegExp.prototype.test\<close> for a pattern without anchor: a match at any position.\<close>

definition matches_at :: "regex \<Rightarrow> jsstring \<Rightarrow> bool" where
  "matches_at r s = (case exec_at r s of None \<Rightarrow> False | Some _ \<Rightarrow> True)"

fun test :: "regex \<Rightarrow> jsstring \<Rightarrow> bool" where
  "test r [] = matches_at r []"
| "test r (a # s) = (matches_at r (a # s) \<or> test r s)"

text \<open>
  \<open>s.replace(r, '')\<close> for a pattern with the \<open>g\<close> flag: scanning from the left, each
  match is dropped and the scan goes on after it; \<open>k\<close> counts the code units of the
  current match still to drop.
\<close>

fun remove_all :: "regex \<Rightarrow> nat \<Rightarrow> jsstring \<Rightarrow> jsstring" where
  "remove_all r k [] = []"
| "remove_all r k (a # s) =
     (if 0 < k then remove_all r (k - 1) s
      else (case exec_at r (a # s) of
              None \<Rightarrow> a # remove_all r 0 s
            | Some (t, _) \<Rightarrow>
                (let n = length (a # s) - length t
                 in if n = 0 then a # remove_all r 0 s else remove_all r (n - 1) s)))"

section \<open>Events and registry entries\<close>

datatype TerminalEventType =
  tool_call | skill_call | agent_call | plugin_call | mcp_call | user_message
  | plan_progress | other

text \<open>
  \<open>details\<close> is a \<open>Record<string, any>\<close>: an object from property names to
  values. The values the parser stores are strings and one boolean.
\<close>

datatype js_value = JStr jsstring | JBool bool | JUndefined | JNull

record TerminalEvent =
  ev_type :: TerminalEventType
  ev_timestamp :: int
  ev_content :: jsstring
  ev_details :: "(string \<times> js_value) list"

text \<open>\<open>event.details?.key\<close>, and the truth value JavaScript gives it in a condition.\<close>

definition detail :: "TerminalEvent \<Rightarrow> string \<Rightarrow> js_value" where
  "detail e k = (case map_of (ev_details e) k of None \<Rightarrow> JUndefined | Some v \<Rightarrow> v)"

fun truthy :: "js_value \<Rightarrow> bool" where
  "truthy (JStr s) = (s \<noteq> [])"
| "truthy (JBool b) = b"
| "truthy JUndefined = False"
| "truthy JNull = False"

datatype item_type = Mcp | Plugin | Skill | Agent

datatype item_source = File | Builtin | Dynamic

record ItemCacheEntry =
  entry_id :: jsstring
  entry_name :: jsstring
  entry_type :: item_type
  entry_source :: item_source
  entry_metadata :: "(string \<times> js_value) list"

text \<open>
  What the registry reads of the objects its four sources return
  (\<open>PluginInfo\<close>, \<open>SkillInfo\<close>, \<open>AgentInfo\<close>, and \<open>{name}\<close> for an MCP server).
\<close>

record McpInfo =
  mcp_name :: jsstring

record PluginInfo =
  plugin_name :: jsstring
  plugin_version :: js_value
  plugin_scope :: js_value

record SkillInfo =
  skill_name :: jsstring
  skill_category :: js_value

record AgentInfo =
  agent_name :: jsstring
  agent_model :: js_value
  agent_color :: js_value
  agent_category :: js_value
  agent_description :: js_value

section \<open>The registry: \<open>ItemTypeResolver\<close>\<close>

text \<open>
  The cache is a JavaScript \<open>Map\<close> from an entry's id to the entry. A \<open>Map\<close> keeps
  its keys in insertion order and \<open>set\<close> on a present key replaces the value in place:
  that is \<open>AList.update\<close> on an association list. \<open>delete\<close> is \<open>AList.delete\<close>,
  \<open>get\<close> is \<open>map_of\<close>.
\<close>

record ItemTypeResolver =
  cache :: "(jsstring \<times> ItemCacheEntry) list"
  lastCacheUpdate :: int

definition CACHE_TTL :: int where
  "CACHE_TTL = 30000"

text \<open>
  The four sources are asynchronous callbacks of collaborators. What a refresh sees of
  them is what each call gives when awaited: a list, or a thrown error. The MCP callback
  is an optional constructor argument.
\<close>

datatype js_error = Thrown jsstring

record Sources =
  getMcpsCallback :: "(js_error + McpInfo list) option"
  getPluginsCallback :: "js_error + PluginInfo list"
  getSkillsCallback :: "js_error + SkillInfo list"
  getAgentsCallback :: "js_error + AgentInfo list"

definition type_name :: "item_type \<Rightarrow> string" where
  "type_name t = (case t of Mcp \<Rightarrow> ''mcp'' | Plugin \<Rightarrow> ''plugin'' | Skill \<Rightarrow> ''skill''
     | Agent \<Rightarrow> ''agent'')"

text \<open>The id \<open>`${type}__${name}`\<close>.\<close>

definition item_key :: "item_type \<Rightarrow> jsstring \<Rightarrow> jsstring" where
  "item_key t n = ascii (type_name t) @ ascii ''__'' @ n"

definition cache_entry ::
  "item_type \<Rightarrow> jsstring \<Rightarrow> item_source \<Rightarrow> (string \<times> js_value) list \<Rightarrow> ItemCacheEntry" where
  "cache_entry t n src md =
     \<lparr>entry_id = item_key t n, entry_name = n, entry_type = t, entry_source = src,
      entry_metadata = md\<rparr>"

definition set_mcp :: "(jsstring \<times> ItemCacheEntry) list \<Rightarrow> McpInfo \<Rightarrow> (jsstring \<times> ItemCacheEntry) list" where
  "set_mcp c m = AList.update (item_key Mcp (mcp_name m)) (cache_entry Mcp (mcp_name m) File []) c"

definition set_plugin :: "(jsstring \<times> ItemCacheEntry) list \<Rightarrow> PluginInfo \<Rightarrow> (jsstring \<times> ItemCacheEntry) list" where
  "set_plugin c p =
     AList.update (item_key Plugin (plugin_name p))
       (cache_entry Plugin (plugin_name p) File
          [(''version'', plugin_version p), (''scope'', plugin_scope p)]) c"

definition set_skill :: "(jsstring \<times> ItemCacheEntry) list \<Rightarrow> SkillInfo \<Rightarrow> (jsstring \<times> ItemCacheEntry) list" where
  "set_skill c k =
     AList.update (item_key Skill (skill_name k))
       (cache_entry Skill (skill_name k) File [(''category'', skill_category k)]) c"

definition set_agent :: "(jsstring \<times> ItemCacheEntry) list \<Rightarrow> AgentInfo \<Rightarrow> (jsstring \<times> ItemCacheEntry) list" where
  "set_agent c a =
     AList.update (item_key Agent (agent_name a))
       (cache_entry Agent (agent_name a) File
          [(''model'', agent_model a), (''color'', agent_color a),
           (''category'', agent_category a), (''description'', agent_description a)]) c"

text \<open>
  \<open>try { const xs = await callback(); for (const x of xs) cache.set(...) } catch { log }\<close>:
  a thrown error leaves the cache as it was before the block.
\<close>

definition try_fill ::
  "('c \<Rightarrow> 'a \<Rightarrow> 'c) \<Rightarrow> js_error + 'a list \<Rightarrow> 'c \<Rightarrow> 'c" where
  "try_fill set_one res c = (case res of Inl err \<Rightarrow> c | Inr xs \<Rightarrow> foldl set_one c xs)"

text \<open>
  \<open>updateCacheIfNeeded\<close>, with \<open>now\<close> the reading of \<open>Date.now()\<close>. The result is a sum
  as for every operation that could throw: \<open>Inl\<close> would be an exception reaching the
  caller.
\<close>

definition updateCacheIfNeeded ::
  "int \<Rightarrow> Sources \<Rightarrow> ItemTypeResolver \<Rightarrow> js_error + ItemTypeResolver" where
  "updateCacheIfNeeded now src r =
     (if now - lastCacheUpdate r < CACHE_TTL then Inr r
      else
        (let c0 = [];
             c1 = (case getMcpsCallback src of None \<Rightarrow> c0
                   | Some res \<Rightarrow> try_fill set_mcp res c0);
             c2 = try_fill set_plugin (getPluginsCallback src) c1;
             c3 = try_fill set_skill (getSkillsCallback src) c2;
             c4 = try_fill set_agent (getAgentsCallback src) c3
         in Inr (r\<lparr>cache := c4, lastCacheUpdate := now\<rparr>)))"

definition refreshCache ::
  "int \<Rightarrow> Sources \<Rightarrow> ItemTypeResolver \<Rightarrow> js_error + ItemTypeResolver" where
  "refreshCache now src r = updateCacheIfNeeded now src (r\<lparr>lastCacheUpdate := 0\<rparr>)"

definition cached_names :: "item_type \<Rightarrow> ItemTypeResolver \<Rightarrow> jsstring list" where
  "cached_names t r = map entry_name (filter (\<lambda>e. entry_type e = t) (map snd (cache r)))"

definition getCachedMcps :: "ItemTypeResolver \<Rightarrow> jsstring list" where
  "getCachedMcps r = cached_names Mcp r"

definition getCachedPlugins :: "ItemTypeResolver \<Rightarrow> jsstring list" where
  "getCachedPlugins r = cached_names Plugin r"

definition getCachedSkills :: "ItemTypeResolver \<Rightarrow> jsstring list" where
  "getCachedSkills r = cached_names Skill r"

definition getCachedAgents :: "ItemTypeResolver \<Rightarrow> jsstring list" where
  "getCachedAgents r = cached_names Agent r"

definition updateDynamicMcps :: "jsstring list \<Rightarrow> ItemTypeResolver \<Rightarrow> ItemTypeResolver" where
  "updateDynamicMcps mcps r =
     r\<lparr>cache := foldl (\<lambda>c m. AList.update (item_key Mcp m) (cache_entry Mcp m Dynamic []) c)
                  (cache r) mcps\<rparr>"

datatype resolved = Known item_type | unknown

text \<open>\<open>entries.find(e => e.type === t)\<close> is used for its truth value only.\<close>

definition has_type :: "item_type \<Rightarrow> ItemCacheEntry list \<Rightarrow> bool" where
  "has_type t es = (case find (\<lambda>e. entry_type e = t) es of None \<Rightarrow> False | Some _ \<Rightarrow> True)"

definition lookupType :: "ItemTypeResolver \<Rightarrow> jsstring \<Rightarrow> resolved" where
  "lookupType r n =
     (if startsWith n (ascii ''/'') then Known Skill
      else if startsWith n (ascii ''mcp-'') then Known Mcp
      else
        (let entries = filter (\<lambda>e. entry_name e = n) (map snd (cache r))
         in case entries of
              [] \<Rightarrow> unknown
            | [e] \<Rightarrow> Known (entry_type e)
            | e # _ \<Rightarrow>
                if has_type Mcp entries then Known Mcp
                else if has_type Plugin entries then Known Plugin
                else if has_type Skill entries then Known Skill
                else if has_type Agent entries then Known Agent
                else Known (entry_type e)))"

text \<open>
  \<open>resolveType\<close>: the refresh, when due, and then the lookup on the refreshed cache. It
  returns the kind and the resolver as the refresh left it.
\<close>

definition resolveType ::
  "int \<Rightarrow> Sources \<Rightarrow> ItemTypeResolver \<Rightarrow> jsstring \<Rightarrow> js_error + resolved \<times> ItemTypeResolver" where
  "resolveType now src r n =
     (case updateCacheIfNeeded now src r of
        Inl err \<Rightarrow> Inl err
      | Inr r' \<Rightarrow> Inr (lookupType r' n, r'))"

section \<open>The classifier: \<open>OutputParser\<close>\<close>

text \<open>The patterns, in the order of their declaration. Each begins with \<open>^\<close>.\<close>

definition TOOL_CALL_PATTERN :: regex where
  "TOOL_CALL_PATTERN =
     cat [Lit (ascii ''[''), Grp 1 (cat [Cls is_upper, Star is_alpha]), Lit (ascii '']''),
          Plus is_space, Grp 2 (Plus is_dot), Eos]"

definition SKILL_CALL_PATTERN :: regex where
  "SKILL_CALL_PATTERN =
     cat [Lit (ascii ''[skill]''), Plus is_space, Grp 1 (Plus is_word), Lit (ascii '':''),
          Star is_space, Grp 2 (Plus is_dot), Eos]"

definition AGENT_CALL_PATTERN :: regex where
  "AGENT_CALL_PATTERN =
     cat [Lit (ascii ''[agent]''), Plus is_space, Grp 1 (Plus is_word), Lit (ascii '':''),
          Star is_space, Grp 2 (Plus is_dot), Eos]"

text \<open>The optional description \<open>(?:\(([^)]+)\))?\<close> of the three bulleted forms.\<close>

definition DESCRIPTION :: regex where
  "DESCRIPTION = Opt (cat [Lit (ascii ''(''), Grp 2 (Plus not_rparen), Lit (ascii '')'')])"

definition SKILL_FORMAT_PATTERN :: regex where
  "SKILL_FORMAT_PATTERN =
     cat [Lit [BULLET], Star is_space, Lit (ascii ''/''), Star is_space,
          Grp 1 (Plus is_word_dash), DESCRIPTION, Eos]"

definition AGENT_FORMAT_PATTERN :: regex where
  "AGENT_FORMAT_PATTERN =
     cat [Lit [BULLET], Star is_space, Grp 1 (Plus is_word_dash), DESCRIPTION, Eos]"

definition MCP_FORMAT_PATTERN :: regex where
  "MCP_FORMAT_PATTERN =
     cat [Lit [BULLET], Star is_space, Lit (ascii ''mcp''), Cls (one_of (ascii ''-_:'')),
          Grp 1 (Plus is_word_dash), DESCRIPTION, Eos]"

definition MCP_RESULT_PATTERN :: regex where
  "MCP_RESULT_PATTERN = cat [Grp 1 (Plus is_word), Lit (ascii ''_result_''), Plus is_word]"

definition PLAN_STEP_PATTERN :: regex where
  "PLAN_STEP_PATTERN =
     cat [Star is_space, Cls (one_of [CHECKED, UNCHECKED]), Plus is_space,
          Opt (Grp 1 (cat [Plus is_digit, Lit (ascii ''.''), Star is_space])),
          Grp 2 (Plus is_dot), Eos]"

definition USER_MESSAGE_PATTERN :: regex where
  "USER_MESSAGE_PATTERN = cat [Lit (ascii ''>''), Star is_space, Grp 1 (Plus is_dot), Eos]"

text \<open>
  The pattern of \<open>parse\<close> that removes colour and control sequences:
  \<open>/\[\d+m|\[\d+[;]?\d*[m;]*|[\x1b\x0f]\[[0-9;]*[a-zA-Z]/g\<close>.
\<close>

definition ANSI_PATTERN :: regex where
  "ANSI_PATTERN =
     Alt (cat [Lit (ascii ''[''), Plus is_digit, Lit (ascii ''m'')])
    (Alt (cat [Lit (ascii ''[''), Plus is_digit, Opt (Cls (one_of (ascii '';''))),
               Star is_digit, Star (one_of (ascii ''m;''))])
         (cat [Cls (one_of [27, 15]), Lit (ascii ''[''),
               Star (\<lambda>c. is_digit c \<or> c = 59), Cls is_alpha]))"

record OutputParser =
  itemTypeResolver :: "ItemTypeResolver option"
  discoveredMcps :: "jsstring list"

text \<open>\<open>m[i]\<close> for a group, and \<open>m[i] || d\<close>: an absent or empty capture gives \<open>d\<close>.\<close>

definition capture :: "captures \<Rightarrow> nat \<Rightarrow> jsstring" where
  "capture m i = (case m i of None \<Rightarrow> [] | Some x \<Rightarrow> x)"

definition or_else :: "jsstring option \<Rightarrow> jsstring \<Rightarrow> jsstring" where
  "or_else a d = (case a of None \<Rightarrow> d | Some x \<Rightarrow> if x = [] then d else x)"

text \<open>\<open>Set.prototype.add\<close> on a set kept in insertion order.\<close>

definition set_add :: "'a \<Rightarrow> 'a list \<Rightarrow> 'a list" where
  "set_add x xs = (if x \<in> set xs then xs else xs @ [x])"

definition detail_key :: "TerminalEventType \<Rightarrow> string" where
  "detail_key t = (case t of mcp_call \<Rightarrow> ''mcp'' | plugin_call \<Rightarrow> ''plugin''
     | skill_call \<Rightarrow> ''skill'' | _ \<Rightarrow> ''agent'')"

text \<open>
  The cache lookup of the generic bulleted form, priority MCP, plugin, skill, agent;
  without a resolver, and for a name in no list, the type stays \<open>agent_call\<close>.
\<close>

definition cachedEventType :: "ItemTypeResolver option \<Rightarrow> jsstring \<Rightarrow> TerminalEventType" where
  "cachedEventType ro itemName =
     (case ro of
        None \<Rightarrow> agent_call
      | Some r \<Rightarrow>
          if itemName \<in> set (getCachedMcps r) then mcp_call
          else if itemName \<in> set (getCachedPlugins r) then plugin_call
          else if itemName \<in> set (getCachedSkills r) then skill_call
          else if itemName \<in> set (getCachedAgents r) then agent_call
          else agent_call)"

text \<open>
  \<open>parseLine\<close>, with \<open>ts\<close> the reading of the clock that stamps the event. It returns
  the event, if any, and the parser with its resolver and discovered set as the line
  left them.
\<close>

definition parseLine :: "int \<Rightarrow> OutputParser \<Rightarrow> jsstring \<Rightarrow> TerminalEvent option \<times> OutputParser" where
  "parseLine ts p line =
     (if line = [] then (None, p)
      else
        (let trimmedLine = trim line in
         case match_start SKILL_FORMAT_PATTERN trimmedLine of
           Some m \<Rightarrow>
             (let skillName = capture m 1; description = or_else (m 2) skillName
              in (Some \<lparr>ev_type = skill_call, ev_timestamp = ts, ev_content = description,
                         ev_details = [(''skill'', JStr skillName), (''name'', JStr skillName),
                                       (''raw'', JStr line)]\<rparr>, p))
         | None \<Rightarrow>
         (case match_start MCP_FORMAT_PATTERN trimmedLine of
           Some m \<Rightarrow>
             (let serverName = capture m 1;
                  description = or_else (m 2) (ascii ''MCP: '' @ serverName)
              in (Some \<lparr>ev_type = mcp_call, ev_timestamp = ts, ev_content = description,
                         ev_details = [(''mcp'', JStr serverName), (''name'', JStr serverName),
                                       (''raw'', JStr line)]\<rparr>,
                  p\<lparr>itemTypeResolver :=
                       map_option (updateDynamicMcps [serverName]) (itemTypeResolver p)\<rparr>))
         | None \<Rightarrow>
         (case match_start AGENT_FORMAT_PATTERN trimmedLine of
           Some m \<Rightarrow>
             (let itemName = capture m 1; description = or_else (m 2) itemName;
                  eventType = cachedEventType (itemTypeResolver p) itemName
              in (Some \<lparr>ev_type = eventType, ev_timestamp = ts, ev_content = description,
                         ev_details = [(detail_key eventType, JStr itemName),
                                       (''name'', JStr itemName), (''raw'', JStr line)]\<rparr>, p))
         | None \<Rightarrow>
         (case match_start SKILL_CALL_PATTERN trimmedLine of
           Some m \<Rightarrow>
             (Some \<lparr>ev_type = skill_call, ev_timestamp = ts, ev_content = capture m 2,
                    ev_details = [(''skill'', JStr (capture m 1)), (''raw'', JStr line)]\<rparr>, p)
         | None \<Rightarrow>
         (case match_start AGENT_CALL_PATTERN trimmedLine of
           Some m \<Rightarrow>
             (Some \<lparr>ev_type = agent_call, ev_timestamp = ts, ev_content = capture m 2,
                    ev_details = [(''agent'', JStr (capture m 1)), (''raw'', JStr line)]\<rparr>, p)
         | None \<Rightarrow>
         (case match_start TOOL_CALL_PATTERN trimmedLine of
           Some m \<Rightarrow>
             (Some \<lparr>ev_type = tool_call, ev_timestamp = ts, ev_content = capture m 2,
                    ev_details = [(''tool'', JStr (capture m 1)), (''raw'', JStr line)]\<rparr>, p)
         | None \<Rightarrow>
         (case match_start PLAN_STEP_PATTERN trimmedLine of
           Some m \<Rightarrow>
             (Some \<lparr>ev_type = plan_progress, ev_timestamp = ts, ev_content = capture m 2,
                    ev_details = [(''completed'', JBool (str_includes trimmedLine [CHECKED])),
                                  (''raw'', JStr line)]\<rparr>, p)
         | None \<Rightarrow>
         (case match_start MCP_RESULT_PATTERN trimmedLine of
           Some m \<Rightarrow>
             (let serverName = capture m 1
              in if 3 < length serverName \<and>
                    toLowerCase serverName \<notin> set [ascii ''error'', ascii ''output'', ascii ''result'']
                 then (None, p\<lparr>discoveredMcps := set_add serverName (discoveredMcps p)\<rparr>)
                 else (None, p))
         | None \<Rightarrow> (None, p))))))))))"

text \<open>\<open>parse\<close>: the loop over the lines, each trimmed before it is classified.\<close>

fun parse_lines :: "int \<Rightarrow> OutputParser \<Rightarrow> jsstring list \<Rightarrow> TerminalEvent list \<times> OutputParser" where
  "parse_lines ts p [] = ([], p)"
| "parse_lines ts p (line # rest) =
     (case parseLine ts p (trim line) of
        (ev, p') \<Rightarrow>
          (case parse_lines ts p' rest of
             (events, p'') \<Rightarrow> ((case ev of None \<Rightarrow> events | Some e \<Rightarrow> e # events), p'')))"

definition parse :: "int \<Rightarrow> OutputParser \<Rightarrow> jsstring \<Rightarrow> TerminalEvent list \<times> OutputParser" where
  "parse ts p output = parse_lines ts p (split_on NL (remove_all ANSI_PATTERN 0 output))"

section \<open>The listener: \<open>TerminalListener\<close>\<close>

datatype run_state = Start | Stop

text \<open>A call \<open>onRunningState(id, name, type, state)\<close>.\<close>

type_synonym notification = "jsstring \<times> jsstring \<times> item_type \<times> run_state"

text \<open>
  A timer of the event loop armed by \<open>setTimeout\<close>: its handle, the time at which it is
  due, and the id and type its callback closes over.
\<close>

record timer =
  timer_handle :: nat
  timer_due :: int
  timer_id :: jsstring
  timer_type :: item_type

text \<open>
  The state of a listener. The arrays that the listener shares with its callers (the
  event buffer and the copies \<open>getEvents\<close> hands out) live in a store from references to
  contents, \<open>eventBuffer\<close> being the reference the field holds; \<open>next_ref\<close> is the next
  unused reference. \<open>timers\<close> are the armed timers of this listener that have neither
  fired nor been cleared, \<open>activeTimeouts\<close> maps an id to a timer handle.
\<close>

record TerminalListener =
  arrays :: "nat \<Rightarrow> TerminalEvent list"
  next_ref :: nat
  eventBuffer :: nat
  parser :: OutputParser
  recentEvents :: "(jsstring \<times> int) list"
  activeIds :: "(jsstring \<times> item_type) list"
  activeTimeouts :: "(jsstring \<times> nat) list"
  timers :: "timer list"
  next_handle :: nat

definition DUPLICATE_WINDOW :: int where
  "DUPLICATE_WINDOW = 3000"

definition AGENT_TIMEOUT :: int where
  "AGENT_TIMEOUT = 10000"

definition new_TerminalListener :: TerminalListener where
  "new_TerminalListener =
     \<lparr>arrays = (\<lambda>r. []), next_ref = 1, eventBuffer = 0,
      parser = \<lparr>itemTypeResolver = None, discoveredMcps = []\<rparr>,
      recentEvents = [], activeIds = [], activeTimeouts = [], timers = [], next_handle = 0\<rparr>"

definition buffer :: "TerminalListener \<Rightarrow> TerminalEvent list" where
  "buffer s = arrays s (eventBuffer s)"

text \<open>
  The clock readings of one pass of \<open>handleTerminalData\<close>: the stamp of the parsed events,
  \<open>Date.now()\<close> in \<open>deduplicateEvents\<close>, the time at which the timeouts are armed, and
  \<open>Date.now()\<close> in \<open>cleanupDuplicateRecords\<close>.
\<close>

record clock =
  t_parse :: int
  t_dedup :: int
  t_arm :: int
  t_cleanup :: int

subsection \<open>De-duplication\<close>

definition event_type_name :: "TerminalEventType \<Rightarrow> string" where
  "event_type_name t = (case t of tool_call \<Rightarrow> ''tool_call'' | skill_call \<Rightarrow> ''skill_call''
     | agent_call \<Rightarrow> ''agent_call'' | plugin_call \<Rightarrow> ''plugin_call'' | mcp_call \<Rightarrow> ''mcp_call''
     | user_message \<Rightarrow> ''user_message'' | plan_progress \<Rightarrow> ''plan_progress''
     | other \<Rightarrow> ''other'')"

text \<open>The key \<open>`${event.type}:${event.content?.substring(0, 100)}`\<close>.\<close>

definition eventKey :: "TerminalEvent \<Rightarrow> jsstring" where
  "eventKey e = ascii (event_type_name (ev_type e)) @ ascii '':'' @ take 100 (ev_content e)"

fun deduplicateEvents ::
  "int \<Rightarrow> TerminalEvent list \<Rightarrow> (jsstring \<times> int) list
     \<Rightarrow> TerminalEvent list \<times> (jsstring \<times> int) list" where
  "deduplicateEvents now [] recent = ([], recent)"
| "deduplicateEvents now (event # events) recent =
     (case map_of recent (eventKey event) of
        Some lastSeen \<Rightarrow>
          if now - lastSeen < DUPLICATE_WINDOW then deduplicateEvents now events recent
          else (case deduplicateEvents now events (AList.update (eventKey event) now recent) of
                  (uniqueEvents, recent') \<Rightarrow> (event # uniqueEvents, recent'))
      | None \<Rightarrow>
          (case deduplicateEvents now events (AList.update (eventKey event) now recent) of
             (uniqueEvents, recent') \<Rightarrow> (event # uniqueEvents, recent')))"

definition cleanupDuplicateRecords :: "int \<Rightarrow> (jsstring \<times> int) list \<Rightarrow> (jsstring \<times> int) list" where
  "cleanupDuplicateRecords now recent =
     (let expiredKeys = map fst (filter (\<lambda>(key, timestamp). now - timestamp > DUPLICATE_WINDOW * 2) recent)
      in foldl (\<lambda>m key. AList.delete key m) recent expiredKeys)"

subsection \<open>Running state\<close>

text \<open>
  One of the four blocks that start an item: the id is entered in \<open>activeIds\<close>, a new
  timeout is armed and stored under the id in \<open>activeTimeouts\<close>, and the start is
  reported. The four blocks differ in the event type, the detail key and the item type.
\<close>

definition startItem ::
  "int \<Rightarrow> jsstring \<Rightarrow> item_type \<Rightarrow> jsstring \<Rightarrow> TerminalListener \<times> notification list
     \<Rightarrow> TerminalListener \<times> notification list" where
  "startItem now ident ty content acc =
     (case acc of (s, notes) \<Rightarrow>
        (s\<lparr>activeIds := AList.update ident ty (activeIds s),
           timers := timers s @ [\<lparr>timer_handle = next_handle s, timer_due = now + AGENT_TIMEOUT,
                                   timer_id = ident, timer_type = ty\<rparr>],
           next_handle := Suc (next_handle s),
           activeTimeouts := AList.update ident (next_handle s) (activeTimeouts s)\<rparr>,
         notes @ [(ident, content, ty, Start)]))"

definition startBlock ::
  "TerminalEventType \<Rightarrow> string \<Rightarrow> item_type \<Rightarrow> int \<Rightarrow> TerminalEvent
     \<Rightarrow> TerminalListener \<times> notification list \<Rightarrow> TerminalListener \<times> notification list" where
  "startBlock evt key ty now event acc =
     (if ev_type event = evt \<and> truthy (detail event key)
      then (case detail event key of
              JStr ident \<Rightarrow> startItem now ident ty (ev_content event) acc
            | _ \<Rightarrow> acc)
      else acc)"

text \<open>The timeout callback: it reports the stop and deletes the id from both maps.\<close>

definition timeoutCallback ::
  "timer \<Rightarrow> TerminalListener \<times> notification list \<Rightarrow> TerminalListener \<times> notification list" where
  "timeoutCallback t acc =
     (case acc of (s, notes) \<Rightarrow>
        (s\<lparr>activeIds := AList.delete (timer_id t) (activeIds s),
           activeTimeouts := AList.delete (timer_id t) (activeTimeouts s)\<rparr>,
         notes @ [(timer_id t, [], timer_type t, Stop)]))"

text \<open>
  The event loop at time \<open>now\<close>: the armed timers that are due fire, earliest first, and
  leave the set of armed timers.
\<close>

definition runTimers :: "int \<Rightarrow> TerminalListener \<Rightarrow> TerminalListener \<times> notification list" where
  "runTimers now s =
     foldl (\<lambda>acc t. timeoutCallback t acc)
       (s\<lparr>timers := filter (\<lambda>t. now < timer_due t) (timers s)\<rparr>, [])
       (sort_key timer_due (filter (\<lambda>t. timer_due t \<le> now) (timers s)))"

definition lit_ci :: "string \<Rightarrow> regex" where
  "lit_ci s = cat (map (\<lambda>c. Cls (\<lambda>x. toLowerCase [x] = toLowerCase [c])) (ascii s))"

definition endPatterns :: "regex list" where
  "endPatterns =
     [cat [Lit (ascii ''Done''), Star is_space, Lit (ascii ''(''), Plus is_digit, Star is_space,
           Lit (ascii ''tool uses'')],
      Lit (ascii ''Finished''),
      lit_ci ''Complete'',
      cat [Lit [RESULT_MARK], Star is_space, Lit (ascii ''Done'')]]"

definition isEndSignal :: "jsstring \<Rightarrow> bool" where
  "isEndSignal content = list_ex (\<lambda>pattern. test pattern content) endPatterns"

text \<open>\<open>clearTimeout\<close> takes the timer out of the armed ones.\<close>

definition clearTimeout :: "nat \<Rightarrow> timer list \<Rightarrow> timer list" where
  "clearTimeout h ts = filter (\<lambda>t. timer_handle t \<noteq> h) ts"

text \<open>The body of the loop over \<open>activeIds.entries()\<close> on an end signal.\<close>

definition stopOne ::
  "TerminalListener \<times> notification list \<Rightarrow> jsstring \<times> item_type
     \<Rightarrow> TerminalListener \<times> notification list" where
  "stopOne acc entry =
     (case acc of (s, notes) \<Rightarrow>
        (case entry of (ident, ty) \<Rightarrow>
           (s\<lparr>timers := (case map_of (activeTimeouts s) ident of
                             None \<Rightarrow> timers s
                           | Some h \<Rightarrow> clearTimeout h (timers s)),
              activeTimeouts := AList.delete ident (activeTimeouts s)\<rparr>,
            notes @ [(ident, [], ty, Stop)])))"

definition checkEnd ::
  "TerminalEvent \<Rightarrow> TerminalListener \<times> notification list \<Rightarrow> TerminalListener \<times> notification list" where
  "checkEnd event acc =
     (case acc of (s, notes) \<Rightarrow>
        if ev_content event \<noteq> [] \<and> isEndSignal (ev_content event) \<and> 0 < length (activeIds s)
        then (case foldl stopOne (s, notes) (activeIds s) of
                (s', notes') \<Rightarrow> (s'\<lparr>activeIds := []\<rparr>, notes'))
        else (s, notes))"

definition pushEvent ::
  "TerminalEvent \<Rightarrow> TerminalListener \<times> notification list \<Rightarrow> TerminalListener \<times> notification list" where
  "pushEvent event acc =
     (case acc of (s, notes) \<Rightarrow>
        (s\<lparr>arrays := (arrays s)(eventBuffer s := arrays s (eventBuffer s) @ [event])\<rparr>, notes))"

text \<open>The body of the loop over the events that passed de-duplication.\<close>

definition processEvent ::
  "int \<Rightarrow> TerminalListener \<times> notification list \<Rightarrow> TerminalEvent
     \<Rightarrow> TerminalListener \<times> notification list" where
  "processEvent now acc event =
     pushEvent event
       (checkEnd event
          (startBlock mcp_call ''mcp'' Mcp now event
             (startBlock plugin_call ''plugin'' Plugin now event
                (startBlock skill_call ''skill'' Skill now event
                   (startBlock agent_call ''agent'' Agent now event acc)))))"

subsection \<open>\<open>handleTerminalData\<close>\<close>

definition quickPatterns :: "jsstring list" where
  "quickPatterns =
     [ascii ''[Bash]'', ascii ''[Read]'', ascii ''[Write]'', ascii ''[Skill]'', ascii ''[Agent]'',
      ascii ''[skill]'', ascii ''[agent]'', ascii ''[Plan]'', [BULLET]]"

definition hasRelevantContent :: "jsstring \<Rightarrow> bool" where
  "hasRelevantContent data = list_ex (\<lambda>p. str_includes data p) quickPatterns"

text \<open>\<open>trimmed.startsWith('> ') || trimmed.match(/^>\s/)\<close>.\<close>

definition isUserInput :: "jsstring \<Rightarrow> bool" where
  "isUserInput data =
     (let trimmed = trim data
      in startsWith trimmed (ascii ''> '') \<or> matches_at (cat [Lit (ascii ''>''), Cls is_space]) trimmed)"

text \<open>
  \<open>this.eventBuffer = this.eventBuffer.slice(-500)\<close> once the buffer holds more than
  1000 events: \<open>slice\<close> makes a new array of the last 500.
\<close>

definition trimBuffer :: "TerminalListener \<Rightarrow> TerminalListener" where
  "trimBuffer s =
     (if 1000 < length (buffer s)
      then s\<lparr>arrays := (arrays s)(next_ref s := drop (length (buffer s) - 500) (buffer s)),
             eventBuffer := next_ref s, next_ref := Suc (next_ref s)\<rparr>
      else s)"

text \<open>
  The handler returns the listener after the pass, the calls of \<open>onRunningState\<close> in
  order, and the batches handed to \<open>onEvent\<close> (none or one).
\<close>

definition handleTerminalData ::
  "clock \<Rightarrow> jsstring \<Rightarrow> TerminalListener
     \<Rightarrow> TerminalListener \<times> notification list \<times> TerminalEvent list list" where
  "handleTerminalData clk data s =
     (if hasRelevantContent data then
        (if isUserInput data then (s, [], [])
         else
           (case parse (t_parse clk) (parser s) data of
              (events, p') \<Rightarrow>
                if length events = 0 then (s\<lparr>parser := p'\<rparr>, [], [])
                else
                  (case deduplicateEvents (t_dedup clk) events (recentEvents s) of
                     (uniqueEvents, recent') \<Rightarrow>
                       (case foldl (processEvent (t_arm clk))
                               (s\<lparr>parser := p', recentEvents := recent'\<rparr>, []) uniqueEvents of
                          (s', notes) \<Rightarrow>
                            (let s'' = trimBuffer s'
                             in (s''\<lparr>recentEvents :=
                                        cleanupDuplicateRecords (t_cleanup clk) (recentEvents s'')\<rparr>,
                                 notes,
                                 (if 0 < length uniqueEvents then [uniqueEvents] else []))))))
           )
      else (s, [], []))"

text \<open>
  \<open>getEvents\<close> returns a new array \<open>[...this.eventBuffer]\<close>: the reference of the copy and
  the listener whose store holds it.
\<close>

definition getEvents :: "TerminalListener \<Rightarrow> nat \<times> TerminalListener" where
  "getEvents s =
     (next_ref s, s\<lparr>arrays := (arrays s)(next_ref s := buffer s), next_ref := Suc (next_ref s)\<rparr>)"

definition clearEvents :: "TerminalListener \<Rightarrow> TerminalListener" where
  "clearEvents s =
     s\<lparr>arrays := (arrays s)(next_ref s := []), eventBuffer := next_ref s,
       next_ref := Suc (next_ref s)\<rparr>"

text \<open>A caller changing, in any way, the array it holds under reference \<open>r\<close>.\<close>

definition mutateArray :: "nat \<Rightarrow> TerminalEvent list \<Rightarrow> TerminalListener \<Rightarrow> TerminalListener" where
  "mutateArray r xs s = s\<lparr>arrays := (arrays s)(r := xs)\<rparr>"

definition setItemTypeResolver :: "ItemTypeResolver \<Rightarrow> TerminalListener \<Rightarrow> TerminalListener" where
  "setItemTypeResolver r s = s\<lparr>parser := (parser s)\<lparr>itemTypeResolver := Some r\<rparr>\<rparr>"

definition getDiscoveredMcps :: "TerminalListener \<Rightarrow> jsstring list" where
  "getDiscoveredMcps s = discoveredMcps (parser s)"

section \<open>Inputs and notions of the statements\<close>

text \<open>One reading \<open>t\<close> of the clock for a whole pass.\<close>

definition clock_at :: "int \<Rightarrow> clock" where
  "clock_at t = \<lparr>t_parse = t, t_dedup = t, t_arm = t, t_cleanup = t\<rparr>"

text \<open>
  A listener in which the agent \<open>A\<close> and the skill \<open>B\<close> are active: a new listener
  after the chunk of the two lines \<open>\<bullet> A\<close> and \<open>\<bullet> /B\<close> at time 0.
\<close>

definition listener_AB :: TerminalListener where
  "listener_AB =
     fst (handleTerminalData (clock_at 0)
            ([BULLET] @ ascii '' A'' @ [NL, BULLET] @ ascii '' /B'') new_TerminalListener)"

text \<open>
  The kinds under which the registry caches a name, in the order of the priority MCP,
  plugin, skill, agent: a name is cached under a kind when an entry of the cache has
  that name and that kind.
\<close>

definition kinds_of :: "ItemTypeResolver \<Rightarrow> jsstring \<Rightarrow> item_type list" where
  "kinds_of r n =
     filter (\<lambda>k. list_ex (\<lambda>e. entry_type e = k \<and> entry_name e = n) (map snd (cache r)))
       [Mcp, Plugin, Skill, Agent]"

definition call_of :: "item_type \<Rightarrow> TerminalEventType" where
  "call_of k = (case k of Mcp \<Rightarrow> mcp_call | Plugin \<Rightarrow> plugin_call | Skill \<Rightarrow> skill_call
     | Agent \<Rightarrow> agent_call)"

text \<open>
  A registry in which \<open>deploy\<close> is cached as a plugin, a skill and an agent, \<open>lint\<close> as a
  skill only, and \<open>search\<close> as an MCP server and an agent.
\<close>

definition registry_example :: ItemTypeResolver where
  "registry_example =
     \<lparr>cache =
        [(item_key Mcp (ascii ''search''), cache_entry Mcp (ascii ''search'') File []),
         (item_key Plugin (ascii ''deploy''), cache_entry Plugin (ascii ''deploy'') File []),
         (item_key Skill (ascii ''deploy''), cache_entry Skill (ascii ''deploy'') File []),
         (item_key Skill (ascii ''lint''), cache_entry Skill (ascii ''lint'') File []),
         (item_key Agent (ascii ''deploy''), cache_entry Agent (ascii ''deploy'') File []),
         (item_key Agent (ascii ''search''), cache_entry Agent (ascii ''search'') File [])],
      lastCacheUpdate = 0\<rparr>"

text \<open>What a source contributes to a refresh: its list, or nothing when it threw.\<close>

definition fetched :: "js_error + 'a list \<Rightarrow> 'a list" where
  "fetched res = (case res of Inl err \<Rightarrow> [] | Inr xs \<Rightarrow> xs)"

text \<open>The kinds and names of the entries of a cache, and the cache's invariant: an entry
  is stored under the id made of its kind and name.\<close>

definition cached_pairs :: "(jsstring \<times> ItemCacheEntry) list \<Rightarrow> (item_type \<times> jsstring) set" where
  "cached_pairs c = (\<lambda>(k, e). (entry_type e, entry_name e)) ` set c"

definition keyed :: "(jsstring \<times> ItemCacheEntry) list \<Rightarrow> bool" where
  "keyed c = list_all (\<lambda>(k, e). k = item_key (entry_type e) (entry_name e)) c"

definition mcps_of :: "Sources \<Rightarrow> McpInfo list" where
  "mcps_of src = (case getMcpsCallback src of None \<Rightarrow> [] | Some res \<Rightarrow> fetched res)"

text \<open>
  A refresh in which the plugin source throws while the three others answer.
\<close>

definition sources_example :: Sources where
  "sources_example =
     \<lparr>getMcpsCallback = Some (Inr [\<lparr>mcp_name = ascii ''search''\<rparr>]),
      getPluginsCallback = Inl (Thrown (ascii ''ENOENT'')),
      getSkillsCallback = Inr [\<lparr>skill_name = ascii ''lint'', skill_category = JUndefined\<rparr>],
      getAgentsCallback =
        Inr [\<lparr>agent_name = ascii ''Explore'', agent_model = JUndefined, agent_color = JNull,
              agent_category = JUndefined, agent_description = JStr (ascii ''explores'')\<rparr>]\<rparr>"

text \<open>The chunk \<open>[Bash] ls\<close> and the tool call it is classified as, stamped \<open>ts\<close>.\<close>

definition bash_chunk :: jsstring where
  "bash_chunk = ascii ''[Bash] ls''"

definition bash_event :: "int \<Rightarrow> TerminalEvent" where
  "bash_event ts =
     \<lparr>ev_type = tool_call, ev_timestamp = ts, ev_content = ascii ''ls'',
      ev_details = [(''tool'', JStr (ascii ''Bash'')), (''raw'', JStr (ascii ''[Bash] ls''))]\<rparr>"

text \<open>
  A new listener after the chunk \<open>\<bullet> foo\<close> at time 0 and the same chunk again at time
  5000, before the timeout of the first start is due.
\<close>

definition listener_restarted :: TerminalListener where
  "listener_restarted =
     fst (handleTerminalData (clock_at 5000) ([BULLET] @ ascii '' foo'')
            (fst (handleTerminalData (clock_at 0) ([BULLET] @ ascii '' foo'') new_TerminalListener)))"



text \<open>
  A timeout of the id is armed; and every armed timeout of the id is the one recorded for
  it in \<open>activeTimeouts\<close>, which is the case as long as the id is not started again while
  a timeout of it is armed.
\<close>

definition armed :: "jsstring \<Rightarrow> TerminalListener \<Rightarrow> bool" where
  "armed i s = list_ex (\<lambda>t. timer_id t = i) (timers s)"

definition only_recorded :: "jsstring \<Rightarrow> TerminalListener \<Rightarrow> bool" where
  "only_recorded i s =
     list_all (\<lambda>t. if timer_id t = i then map_of (activeTimeouts s) i = Some (timer_handle t)
                     else True) (timers s)"

text \<open>
  Two states of an id with respect to its timeouts: no timeout of it is armed beyond the
  recorded one and, when it is not active, none at all; and it is neither active nor has
  an armed timeout.
\<close>

definition single_timeout :: "jsstring \<Rightarrow> TerminalListener \<Rightarrow> bool" where
  "single_timeout i s =
     (only_recorded i s \<and> (if i \<in> fst ` set (activeIds s) then True else \<not> armed i s))"

definition gone :: "jsstring \<Rightarrow> TerminalListener \<Rightarrow> bool" where
  "gone i s = (\<not> armed i s \<and> i \<notin> fst ` set (activeIds s))"






text \<open>
  A run of the handler over a list of chunks with their clock readings, and the events
  that each pass of the run hands to \<open>onEvent\<close>.
\<close>

fun run :: "(clock \<times> jsstring) list \<Rightarrow> TerminalListener \<Rightarrow> TerminalListener" where
  "run [] s = s"
| "run (step # rest) s = run rest (fst (handleTerminalData (fst step) (snd step) s))"

fun emitted :: "(clock \<times> jsstring) list \<Rightarrow> TerminalListener \<Rightarrow> TerminalEvent list list" where
  "emitted [] s = []"
| "emitted (step # rest) s =
     concat (snd (snd (handleTerminalData (fst step) (snd step) s)))
       # emitted rest (fst (handleTerminalData (fst step) (snd step) s))"

text \<open>The chunk \<open>[Bash] ls\<close> \<open>n\<close> times, 3000 ms apart, from time \<open>3000 * k\<close> on.\<close>

fun bash_steps :: "nat \<Rightarrow> nat \<Rightarrow> (clock \<times> jsstring) list" where
  "bash_steps k 0 = []"
| "bash_steps k (Suc n) = (clock_at (3000 * int k), bash_chunk) # bash_steps (Suc k) n"

section \<open>Evaluation\<close>

text \<open>The definitions that the simplifier unfolds to run the model on a concrete input.\<close>

lemmas chars = BULLET_def CHECKED_def UNCHECKED_def RESULT_MARK_def NL_def
lemmas classes = is_digit_def is_upper_def is_lower_def is_alpha_def is_word_def is_word_dash_def is_space_def
  is_line_terminator_def is_dot_def not_rparen_def one_of_def
lemmas strs = ascii_def trim_def startsWith_def toLowerCase_def
lemmas rx = exec_at_def match_start_def matches_at_def
lemmas pats = TOOL_CALL_PATTERN_def SKILL_CALL_PATTERN_def AGENT_CALL_PATTERN_def DESCRIPTION_def
  SKILL_FORMAT_PATTERN_def AGENT_FORMAT_PATTERN_def MCP_FORMAT_PATTERN_def MCP_RESULT_PATTERN_def
  PLAN_STEP_PATTERN_def ANSI_PATTERN_def
lemmas pars = Let_def parseLine_def parse_def capture_def or_else_def set_add_def detail_key_def cachedEventType_def
lemmas lst = handleTerminalData_def hasRelevantContent_def quickPatterns_def isUserInput_def
  processEvent_def startBlock_def startItem_def checkEnd_def pushEvent_def stopOne_def clearTimeout_def
  isEndSignal_def endPatterns_def lit_ci_def trimBuffer_def buffer_def cleanupDuplicateRecords_def
  eventKey_def event_type_name_def detail_def DUPLICATE_WINDOW_def AGENT_TIMEOUT_def new_TerminalListener_def
  clock_at_def


lemmas reg = registry_example_def kinds_of_def call_of_def cache_entry_def item_key_def type_name_def

lemma trim_Nil: "trim [] = []"
  by (simp add: trim_def)

lemma stopOne_pair:
  "stopOne (s, ns) (i, t) =
     (s\<lparr>timers := (case map_of (activeTimeouts s) i of None \<Rightarrow> timers s
                     | Some h \<Rightarrow> clearTimeout h (timers s)),
        activeTimeouts := AList.delete i (activeTimeouts s)\<rparr>,
      ns @ [(i, [], t, Stop)])"
  by (simp add: stopOne_def)

section \<open>Chunks the listener skips\<close>

text \<open>
  C9. A chunk that contains none of the nine marker substrings, or whose trimmed text
  begins with \<open>> \<close>, is skipped: the handler returns the listener as it was (history,
  de-duplication records, active ids, timeouts with their timers, and the parser with
  its discovered MCP names), reports no running-state change and emits no batch, whatever
  lines the chunk holds.
\<close>

theorem irrelevant_chunk_is_noop:
  assumes "list_all (\<lambda>p. \<not> str_includes data p)
             [ascii ''[Bash]'', ascii ''[Read]'', ascii ''[Write]'', ascii ''[Skill]'',
              ascii ''[Agent]'', ascii ''[skill]'', ascii ''[agent]'', ascii ''[Plan]'', [BULLET]]
           \<or> startsWith (trim data) (ascii ''> '')"
  shows "handleTerminalData clk data s = (s, [], [])"
  using assms
  by (auto simp add: handleTerminalData_def hasRelevantContent_def quickPatterns_def
        isUserInput_def Let_def)

text \<open>
  Two skipped chunks while \<open>A\<close> and \<open>B\<close> are active: one holds an end-of-execution
  line and a line of the discovery form but no marker, the other holds the bullet but
  begins with \<open>> \<close>.
\<close>

theorem irrelevant_chunk_is_noop_witness:
  "handleTerminalData (clock_at 5000)
     ([RESULT_MARK] @ ascii '' Done (3 tool uses)'' @ [NL] @ ascii ''wxyz_result_summary'')
     listener_AB = (listener_AB, [], [])
   \<and> handleTerminalData (clock_at 5000) (ascii ''> '' @ [BULLET] @ ascii '' Explore'')
     listener_AB = (listener_AB, [], [])"
proof -
  have h1: "list_all (\<lambda>p. \<not> str_includes ([RESULT_MARK] @ ascii '' Done (3 tool uses)'' @ [NL] @ ascii ''wxyz_result_summary'') p)
             [ascii ''[Bash]'', ascii ''[Read]'', ascii ''[Write]'', ascii ''[Skill]'',
              ascii ''[Agent]'', ascii ''[skill]'', ascii ''[agent]'', ascii ''[Plan]'', [BULLET]]"
    by (simp add: chars strs)
  have h2: "startsWith (trim (ascii ''> '' @ [BULLET] @ ascii '' Explore'')) (ascii ''> '')"
    by (simp add: chars strs classes)
  show ?thesis
    using irrelevant_chunk_is_noop [OF disjI1 [OF h1]] irrelevant_chunk_is_noop [OF disjI2 [OF h2]]
    by simp
qed

section \<open>Clearing the history\<close>

text \<open>
  C10. \<open>clearEvents\<close> empties the event history, so that \<open>getEvents\<close> then returns an
  empty array, and changes nothing else: the de-duplication records are the same (the
  de-duplication of any batch at any time gives the same result as without the call),
  and so are the active ids, the timeouts and their timers, and the parser with its
  discovered MCP names.
\<close>

theorem clearEvents_frame:
  "buffer (clearEvents s) = []
   \<and> arrays (snd (getEvents (clearEvents s))) (fst (getEvents (clearEvents s))) = []
   \<and> recentEvents (clearEvents s) = recentEvents s
   \<and> deduplicateEvents now events (recentEvents (clearEvents s)) =
       deduplicateEvents now events (recentEvents s)
   \<and> activeIds (clearEvents s) = activeIds s
   \<and> activeTimeouts (clearEvents s) = activeTimeouts s
   \<and> timers (clearEvents s) = timers s
   \<and> next_handle (clearEvents s) = next_handle s
   \<and> parser (clearEvents s) = parser s
   \<and> getDiscoveredMcps (clearEvents s) = getDiscoveredMcps s"
  by (simp add: clearEvents_def getEvents_def buffer_def getDiscoveredMcps_def)


section \<open>The slash form\<close>

lemma skill_format_not_empty: "match_start SKILL_FORMAT_PATTERN [] = None"
  by (simp add: rx pats strs)

text \<open>
  C7. A line that matches the bulleted slash-name pattern is classified as a skill call
  by the first rule of \<open>parseLine\<close>, whatever the parser's registry holds: the content
  is the parenthesised description, or the name when there is none, and \<open>details.skill\<close>
  is the name. In particular the chunk \<open>\<bullet> /commit(Create a git commit)\<close> with a line
  feed, given to a new listener with any registry, emits one skill call with content
  \<open>Create a git commit\<close> and \<open>details.skill = commit\<close>, and \<open>commit\<close> becomes active with
  kind skill.
\<close>

theorem slash_name_is_skill_call:
  "(match_start SKILL_FORMAT_PATTERN (trim line) = Some m \<longrightarrow>
      parseLine ts p line =
        (Some \<lparr>ev_type = skill_call, ev_timestamp = ts,
               ev_content = or_else (m 2) (capture m 1),
               ev_details = [(''skill'', JStr (capture m 1)), (''name'', JStr (capture m 1)),
                             (''raw'', JStr line)]\<rparr>, p))
   \<and> snd (snd (handleTerminalData clk ([BULLET] @ ascii '' /commit(Create a git commit)'' @ [NL])
                  (setItemTypeResolver r new_TerminalListener))) =
       [[\<lparr>ev_type = skill_call, ev_timestamp = t_parse clk,
          ev_content = ascii ''Create a git commit'',
          ev_details = [(''skill'', JStr (ascii ''commit'')), (''name'', JStr (ascii ''commit'')),
                        (''raw'', JStr ([BULLET] @ ascii '' /commit(Create a git commit)''))]\<rparr>]]
   \<and> activeIds (fst (handleTerminalData clk ([BULLET] @ ascii '' /commit(Create a git commit)'' @ [NL])
                  (setItemTypeResolver r new_TerminalListener))) = [(ascii ''commit'', Skill)]
   \<and> fst (snd (handleTerminalData clk ([BULLET] @ ascii '' /commit(Create a git commit)'' @ [NL])
                  (setItemTypeResolver r new_TerminalListener))) =
       [(ascii ''commit'', ascii ''Create a git commit'', Skill, Start)]"
proof (intro conjI impI)
  assume m: "match_start SKILL_FORMAT_PATTERN (trim line) = Some m"
  have "line \<noteq> []"
    using m skill_format_not_empty trim_Nil by auto
  then show "parseLine ts p line =
        (Some \<lparr>ev_type = skill_call, ev_timestamp = ts,
               ev_content = or_else (m 2) (capture m 1),
               ev_details = [(''skill'', JStr (capture m 1)), (''name'', JStr (capture m 1)),
                             (''raw'', JStr line)]\<rparr>, p)"
    using m by (simp add: parseLine_def Let_def)
qed (simp_all add: setItemTypeResolver_def chars classes strs rx pats pars lst)

text \<open>
  The line \<open>\<bullet> /search(find it)\<close> with a registry that caches \<open>search\<close> as an MCP server
  and as an agent.
\<close>

theorem slash_name_is_skill_call_witness:
  "parseLine 0 \<lparr>itemTypeResolver = Some registry_example, discoveredMcps = []\<rparr>
     ([BULLET] @ ascii '' /search(find it)'') =
     (Some \<lparr>ev_type = skill_call, ev_timestamp = 0, ev_content = ascii ''find it'',
            ev_details = [(''skill'', JStr (ascii ''search'')), (''name'', JStr (ascii ''search'')),
                          (''raw'', JStr ([BULLET] @ ascii '' /search(find it)''))]\<rparr>,
      \<lparr>itemTypeResolver = Some registry_example, discoveredMcps = []\<rparr>)"
proof -
  have "\<exists>m. match_start SKILL_FORMAT_PATTERN (trim ([BULLET] @ ascii '' /search(find it)'')) = Some m
          \<and> m 1 = Some (ascii ''search'') \<and> m 2 = Some (ascii ''find it'')"
    by (simp add: chars classes strs rx pats)
  then obtain m where
    m: "match_start SKILL_FORMAT_PATTERN (trim ([BULLET] @ ascii '' /search(find it)'')) = Some m"
    and g: "m 1 = Some (ascii ''search'')" "m 2 = Some (ascii ''find it'')"
    by blast
  show ?thesis
    using m g slash_name_is_skill_call
      [of "[BULLET] @ ascii '' /search(find it)''" m 0
          "\<lparr>itemTypeResolver = Some registry_example, discoveredMcps = []\<rparr>"]
    by (simp add: capture_def or_else_def ascii_def)
qed

section \<open>Plan steps\<close>

text \<open>
  C3. The completed flag of a plan step is \<open>trimmedLine.includes('\<checkmark>')\<close>: a check mark
  anywhere in the line sets it. The unchecked step \<open>\<box> fix \<checkmark> icon\<close> is classified as a
  completed one, by \<open>parse\<close> on the line and by the listener on a chunk that holds it.
\<close>

theorem plan_step_completed_from_any_check_mark:
  "parse ts p ([UNCHECKED] @ ascii '' fix '' @ [CHECKED] @ ascii '' icon'') =
     ([\<lparr>ev_type = plan_progress, ev_timestamp = ts,
        ev_content = ascii ''fix '' @ [CHECKED] @ ascii '' icon'',
        ev_details = [(''completed'', JBool True),
                      (''raw'', JStr ([UNCHECKED] @ ascii '' fix '' @ [CHECKED] @ ascii '' icon''))]\<rparr>], p)
   \<and> snd (snd (handleTerminalData clk
         (ascii ''[Plan] steps'' @ [NL, UNCHECKED] @ ascii '' fix '' @ [CHECKED] @ ascii '' icon'')
         new_TerminalListener)) =
     [[\<lparr>ev_type = tool_call, ev_timestamp = t_parse clk, ev_content = ascii ''steps'',
        ev_details = [(''tool'', JStr (ascii ''Plan'')), (''raw'', JStr (ascii ''[Plan] steps''))]\<rparr>,
       \<lparr>ev_type = plan_progress, ev_timestamp = t_parse clk,
        ev_content = ascii ''fix '' @ [CHECKED] @ ascii '' icon'',
        ev_details = [(''completed'', JBool True),
                      (''raw'', JStr ([UNCHECKED] @ ascii '' fix '' @ [CHECKED] @ ascii '' icon''))]\<rparr>]]"
  by (simp add: chars classes strs rx pats pars lst)

section \<open>The generic bulleted form and the registry\<close>

lemma agent_format_not_empty: "match_start AGENT_FORMAT_PATTERN [] = None"
  by (simp add: rx pats strs)

lemma has_type_iff: "has_type k es = (\<exists>e \<in> set es. entry_type e = k)"
  by (induction es) (auto simp add: has_type_def)

lemma list_ex_kind:
  "list_ex (\<lambda>e. entry_type e = k \<and> entry_name e = n) vs =
     has_type k (filter (\<lambda>e. entry_name e = n) vs)"
  by (auto simp add: has_type_iff list_ex_iff)

lemma member_cached_names:
  "(n \<in> set (cached_names k r)) =
     list_ex (\<lambda>e. entry_type e = k \<and> entry_name e = n) (map snd (cache r))"
  by (auto simp add: cached_names_def list_ex_iff)

lemma kinds_of_filter:
  "kinds_of r n =
     filter (\<lambda>k. has_type k (filter (\<lambda>e. entry_name e = n) (map snd (cache r))))
       [Mcp, Plugin, Skill, Agent]"
  by (simp only: kinds_of_def list_ex_kind)

lemma has_type_single: "has_type k [e] = (entry_type e = k)"
  by (simp add: has_type_iff)

lemma has_type_Nil: "has_type k [] = False"
  by (simp add: has_type_iff)

lemma has_type_own: "has_type (entry_type e) (e # es)"
  by (simp add: has_type_iff)

lemma lookupType_kinds:
  assumes "\<not> startsWith n (ascii ''/'')" and "\<not> startsWith n (ascii ''mcp-'')"
  shows "lookupType r n = (case kinds_of r n of [] \<Rightarrow> unknown | k # _ \<Rightarrow> Known k)"
proof (cases "filter (\<lambda>e. entry_name e = n) (map snd (cache r))")
  case Nil
  then show ?thesis
    using assms by (simp add: lookupType_def kinds_of_filter has_type_Nil)
next
  case (Cons e es)
  show ?thesis
  proof (cases es)
    case Nil
    with Cons show ?thesis
      using assms
      by (cases "entry_type e") (simp_all add: lookupType_def kinds_of_filter has_type_single)
  next
    case (Cons e' es')
    have own: "has_type (entry_type e) (e # e' # es')"
      by (rule has_type_own)
    show ?thesis
      using assms \<open>filter (\<lambda>e. entry_name e = n) (map snd (cache r)) = e # es\<close> Cons own
      by (cases "entry_type e") (auto simp add: lookupType_def kinds_of_filter)
  qed
qed

lemma cachedEventType_kinds:
  "cachedEventType (Some r) n = (case kinds_of r n of [] \<Rightarrow> agent_call | k # _ \<Rightarrow> call_of k)"
  by (simp add: cachedEventType_def kinds_of_def member_cached_names call_of_def
        getCachedMcps_def getCachedPlugins_def getCachedSkills_def getCachedAgents_def)

lemma updateCacheIfNeeded_returns: "\<exists>r'. updateCacheIfNeeded now src r = Inr r'"
  by (simp add: updateCacheIfNeeded_def Let_def)

text \<open>
  C6. A generic bulleted line (the generic pattern matches, the slash and MCP patterns do
  not) is classified by the registry: the event takes the first kind, in the priority
  MCP, plugin, skill, agent, under which the name is cached, hence the only kind when
  there is one, and is an agent call when there is none or when the parser has no
  registry. For a name without the prefix \<open>/\<close> or \<open>mcp-\<close>, \<open>resolveType\<close> returns, on
  the cache as its refresh leaves it, the first such kind, and \<open>unknown\<close> when there is
  none.
\<close>

theorem generic_bullet_resolved_by_registry:
  "(match_start SKILL_FORMAT_PATTERN (trim line) = None \<and>
    match_start MCP_FORMAT_PATTERN (trim line) = None \<and>
    match_start AGENT_FORMAT_PATTERN (trim line) = Some m \<longrightarrow>
      (\<exists>e. parseLine ts p line = (Some e, p) \<and>
           ev_type e =
             (case itemTypeResolver p of
                None \<Rightarrow> agent_call
              | Some r \<Rightarrow> (case kinds_of r (capture m 1) of [] \<Rightarrow> agent_call | k # _ \<Rightarrow> call_of k)) \<and>
           detail e ''name'' = JStr (capture m 1)))
   \<and> (\<not> startsWith n (ascii ''/'') \<and> \<not> startsWith n (ascii ''mcp-'') \<longrightarrow>
        (\<exists>r'. updateCacheIfNeeded now src r = Inr r' \<and>
              resolveType now src r n =
                Inr ((case kinds_of r' n of [] \<Rightarrow> unknown | k # _ \<Rightarrow> Known k), r')))"
proof (intro conjI impI)
  assume a: "match_start SKILL_FORMAT_PATTERN (trim line) = None \<and>
    match_start MCP_FORMAT_PATTERN (trim line) = None \<and>
    match_start AGENT_FORMAT_PATTERN (trim line) = Some m"
  then have ne: "line \<noteq> []"
    using agent_format_not_empty trim_Nil by auto
  show "\<exists>e. parseLine ts p line = (Some e, p) \<and>
           ev_type e =
             (case itemTypeResolver p of
                None \<Rightarrow> agent_call
              | Some r \<Rightarrow> (case kinds_of r (capture m 1) of [] \<Rightarrow> agent_call | k # _ \<Rightarrow> call_of k)) \<and>
           detail e ''name'' = JStr (capture m 1)"
  proof (cases "itemTypeResolver p")
    case None
    then show ?thesis
      using a ne by (simp add: parseLine_def Let_def cachedEventType_def detail_def detail_key_def)
  next
    case (Some r)
    have "detail_key (cachedEventType (Some r) (capture m 1)) \<noteq> ''name''"
      by (simp add: detail_key_def split: TerminalEventType.splits)
    then show ?thesis
      using a ne Some
      by (simp add: parseLine_def Let_def detail_def cachedEventType_kinds [symmetric])
  qed
next
  assume b: "\<not> startsWith n (ascii ''/'') \<and> \<not> startsWith n (ascii ''mcp-'')"
  obtain r' where r': "updateCacheIfNeeded now src r = Inr r'"
    using updateCacheIfNeeded_returns by blast
  show "\<exists>r'. updateCacheIfNeeded now src r = Inr r' \<and>
              resolveType now src r n =
                Inr ((case kinds_of r' n of [] \<Rightarrow> unknown | k # _ \<Rightarrow> Known k), r')"
    using r' b lookupType_kinds [of n r'] by (simp add: resolveType_def)
qed

lemma generic_matches:
  "\<exists>m. match_start SKILL_FORMAT_PATTERN (trim ([BULLET] @ ascii '' deploy(ship it)'')) = None
     \<and> match_start MCP_FORMAT_PATTERN (trim ([BULLET] @ ascii '' deploy(ship it)'')) = None
     \<and> match_start AGENT_FORMAT_PATTERN (trim ([BULLET] @ ascii '' deploy(ship it)'')) = Some m
     \<and> capture m 1 = ascii ''deploy''"
  by (simp add: chars classes strs rx pats capture_def)

lemma kinds_of_deploy: "kinds_of registry_example (ascii ''deploy'') = [Plugin, Skill, Agent]"
  by (simp add: reg ascii_def)

lemma kinds_of_search: "kinds_of registry_example (ascii ''search'') = [Mcp, Agent]"
  by (simp add: reg ascii_def)

lemma kinds_of_Explore: "kinds_of registry_example (ascii ''Explore'') = []"
  by (simp add: reg ascii_def)

lemma registry_example_fresh: "updateCacheIfNeeded 1000 sources_example registry_example = Inr registry_example"
  by (simp add: updateCacheIfNeeded_def registry_example_def CACHE_TTL_def)

text \<open>
  With the example registry: \<open>\<bullet> deploy(ship it)\<close> is a plugin call, \<open>deploy\<close> being cached
  as plugin, skill and agent; \<open>search\<close>, cached as MCP server and agent, resolves to MCP;
  \<open>Explore\<close>, not cached, resolves to unknown.
\<close>

theorem generic_bullet_resolved_by_registry_witness:
  "(\<exists>e. parseLine 0 \<lparr>itemTypeResolver = Some registry_example, discoveredMcps = []\<rparr>
          ([BULLET] @ ascii '' deploy(ship it)'') =
          (Some e, \<lparr>itemTypeResolver = Some registry_example, discoveredMcps = []\<rparr>)
        \<and> ev_type e = plugin_call \<and> detail e ''name'' = JStr (ascii ''deploy''))
   \<and> resolveType 1000 sources_example registry_example (ascii ''search'') =
       Inr (Known Mcp, registry_example)
   \<and> resolveType 1000 sources_example registry_example (ascii ''Explore'') =
       Inr (unknown, registry_example)"
proof (intro conjI)
  obtain m where
    m: "match_start SKILL_FORMAT_PATTERN (trim ([BULLET] @ ascii '' deploy(ship it)'')) = None \<and>
        match_start MCP_FORMAT_PATTERN (trim ([BULLET] @ ascii '' deploy(ship it)'')) = None \<and>
        match_start AGENT_FORMAT_PATTERN (trim ([BULLET] @ ascii '' deploy(ship it)'')) = Some m"
    and c: "capture m 1 = ascii ''deploy''"
    using generic_matches by blast
  show "\<exists>e. parseLine 0 \<lparr>itemTypeResolver = Some registry_example, discoveredMcps = []\<rparr>
          ([BULLET] @ ascii '' deploy(ship it)'') =
          (Some e, \<lparr>itemTypeResolver = Some registry_example, discoveredMcps = []\<rparr>)
        \<and> ev_type e = plugin_call \<and> detail e ''name'' = JStr (ascii ''deploy'')"
    using m c kinds_of_deploy
      conjunct1 [OF generic_bullet_resolved_by_registry
        [of "[BULLET] @ ascii '' deploy(ship it)''" m 0
            "\<lparr>itemTypeResolver = Some registry_example, discoveredMcps = []\<rparr>"]]
    by (simp add: call_of_def)
  have p1: "\<not> startsWith (ascii ''search'') (ascii ''/'') \<and> \<not> startsWith (ascii ''search'') (ascii ''mcp-'')"
    by (simp add: strs)
  show "resolveType 1000 sources_example registry_example (ascii ''search'') =
       Inr (Known Mcp, registry_example)"
    using p1 kinds_of_search registry_example_fresh
      conjunct2 [OF generic_bullet_resolved_by_registry
        [of _ _ _ _ "ascii ''search''" 1000 sources_example registry_example]]
    by simp
  have p2: "\<not> startsWith (ascii ''Explore'') (ascii ''/'') \<and> \<not> startsWith (ascii ''Explore'') (ascii ''mcp-'')"
    by (simp add: strs)
  show "resolveType 1000 sources_example registry_example (ascii ''Explore'') =
       Inr (unknown, registry_example)"
    using p2 kinds_of_Explore registry_example_fresh
      conjunct2 [OF generic_bullet_resolved_by_registry
        [of _ _ _ _ "ascii ''Explore''" 1000 sources_example registry_example]]
    by simp
qed

section \<open>Refreshing the registry\<close>

lemma item_key_inj: "item_key t n = item_key t' n' \<Longrightarrow> t = t' \<and> n = n'"
  by (cases t; cases t') (simp_all add: item_key_def type_name_def ascii_def)

lemma keyed_update:
  assumes "keyed c"
  shows "keyed (AList.update (item_key t n) (cache_entry t n src md) c)"
  using assms by (induction c) (auto simp add: keyed_def cache_entry_def)

lemma pairs_update:
  assumes "keyed c"
  shows "cached_pairs (AList.update (item_key t n) (cache_entry t n src md) c) =
           insert (t, n) (cached_pairs c)"
  using assms
proof (induction c)
  case Nil
  then show ?case by (simp add: cached_pairs_def cache_entry_def)
next
  case (Cons a c)
  obtain k e where a: "a = (k, e)" by (cases a)
  from Cons.prems a have k: "k = item_key (entry_type e) (entry_name e)" and kc: "keyed c"
    by (simp_all add: keyed_def)
  have ih: "cached_pairs (AList.update (item_key t n) (cache_entry t n src md) c) =
           insert (t, n) (cached_pairs c)"
    using Cons.IH kc by simp
  show ?case
  proof (cases "k = item_key t n")
    case True
    then have "entry_type e = t \<and> entry_name e = n"
      using k item_key_inj by metis
    then show ?thesis
      using True a by (auto simp add: cached_pairs_def cache_entry_def)
  next
    case False
    then show ?thesis
      using a ih by (auto simp add: cached_pairs_def)
  qed
qed

lemma fold_mcp:
  "keyed c \<Longrightarrow> keyed (foldl set_mcp c xs) \<and>
     cached_pairs (foldl set_mcp c xs) = cached_pairs c \<union> (\<lambda>x. (Mcp, mcp_name x)) ` set xs"
  by (induction xs arbitrary: c) (auto simp add: set_mcp_def keyed_update pairs_update)

lemma fold_plugin:
  "keyed c \<Longrightarrow> keyed (foldl set_plugin c xs) \<and>
     cached_pairs (foldl set_plugin c xs) = cached_pairs c \<union> (\<lambda>x. (Plugin, plugin_name x)) ` set xs"
  by (induction xs arbitrary: c) (auto simp add: set_plugin_def keyed_update pairs_update)

lemma fold_skill:
  "keyed c \<Longrightarrow> keyed (foldl set_skill c xs) \<and>
     cached_pairs (foldl set_skill c xs) = cached_pairs c \<union> (\<lambda>x. (Skill, skill_name x)) ` set xs"
  by (induction xs arbitrary: c) (auto simp add: set_skill_def keyed_update pairs_update)

lemma fold_agent:
  "keyed c \<Longrightarrow> keyed (foldl set_agent c xs) \<and>
     cached_pairs (foldl set_agent c xs) = cached_pairs c \<union> (\<lambda>x. (Agent, agent_name x)) ` set xs"
  by (induction xs arbitrary: c) (auto simp add: set_agent_def keyed_update pairs_update)

lemma try_fill_fetched: "try_fill f res c = foldl f c (fetched res)"
  by (simp add: try_fill_def fetched_def split: sum.splits)

lemma names_pairs_list:
  "(n \<in> set (map entry_name (filter (\<lambda>e. entry_type e = k) (map snd c)))) =
     ((k, n) \<in> cached_pairs c)"
  by (induction c) (auto simp add: cached_pairs_def)

lemma cached_names_pairs: "set (cached_names k r) = {n. (k, n) \<in> cached_pairs (cache r)}"
  using names_pairs_list [of _ k "cache r"] unfolding cached_names_def by blast

lemma rebuilt_pairs:
  assumes "CACHE_TTL \<le> now - lastCacheUpdate r" and "updateCacheIfNeeded now src r = Inr r'"
  shows "cached_pairs (cache r') =
           (\<lambda>x. (Mcp, mcp_name x)) ` set (mcps_of src)
         \<union> (\<lambda>x. (Plugin, plugin_name x)) ` set (fetched (getPluginsCallback src))
         \<union> (\<lambda>x. (Skill, skill_name x)) ` set (fetched (getSkillsCallback src))
         \<union> (\<lambda>x. (Agent, agent_name x)) ` set (fetched (getAgentsCallback src))"
proof -
  define c1 where "c1 = foldl set_mcp [] (mcps_of src)"
  define c2 where "c2 = foldl set_plugin c1 (fetched (getPluginsCallback src))"
  define c3 where "c3 = foldl set_skill c2 (fetched (getSkillsCallback src))"
  define c4 where "c4 = foldl set_agent c3 (fetched (getAgentsCallback src))"
  have k0: "keyed []" by (simp add: keyed_def)
  have p0: "cached_pairs [] = {}" by (simp add: cached_pairs_def)
  have s1: "keyed c1 \<and> cached_pairs c1 = (\<lambda>x. (Mcp, mcp_name x)) ` set (mcps_of src)"
    using fold_mcp [OF k0] p0 by (simp add: c1_def)
  have s2: "keyed c2 \<and> cached_pairs c2 = cached_pairs c1 \<union> (\<lambda>x. (Plugin, plugin_name x)) ` set (fetched (getPluginsCallback src))"
    using fold_plugin s1 by (simp add: c2_def)
  have s3: "keyed c3 \<and> cached_pairs c3 = cached_pairs c2 \<union> (\<lambda>x. (Skill, skill_name x)) ` set (fetched (getSkillsCallback src))"
    using fold_skill s2 by (simp add: c3_def)
  have s4: "cached_pairs c4 = cached_pairs c3 \<union> (\<lambda>x. (Agent, agent_name x)) ` set (fetched (getAgentsCallback src))"
    using fold_agent s3 by (simp add: c4_def)
  have "cache r' = c4"
    using assms
    by (cases "getMcpsCallback src")
       (auto simp add: updateCacheIfNeeded_def Let_def try_fill_fetched mcps_of_def
          c1_def c2_def c3_def c4_def)
  then show ?thesis
    using s1 s2 s3 s4 by simp
qed

text \<open>
  C8. \<open>updateCacheIfNeeded\<close> and \<open>refreshCache\<close> always return normally. After a
  rebuild, the names cached under each kind are exactly the names its own source
  returned, and none when that source threw: what the other three sources did has no
  part in it.
\<close>

theorem refresh_isolates_failing_source:
  "(\<exists>r'. updateCacheIfNeeded now src r = Inr r')
   \<and> (\<exists>r'. refreshCache now src r = Inr r')
   \<and> (CACHE_TTL \<le> now - lastCacheUpdate r \<and> updateCacheIfNeeded now src r = Inr r' \<longrightarrow>
        set (getCachedMcps r') =
          mcp_name ` set (case getMcpsCallback src of None \<Rightarrow> [] | Some res \<Rightarrow> fetched res)
      \<and> set (getCachedPlugins r') = plugin_name ` set (fetched (getPluginsCallback src))
      \<and> set (getCachedSkills r') = skill_name ` set (fetched (getSkillsCallback src))
      \<and> set (getCachedAgents r') = agent_name ` set (fetched (getAgentsCallback src)))"
proof (intro conjI impI)
  show "\<exists>r'. updateCacheIfNeeded now src r = Inr r'"
    by (simp add: updateCacheIfNeeded_def Let_def)
  show "\<exists>r'. refreshCache now src r = Inr r'"
    by (simp add: refreshCache_def updateCacheIfNeeded_def Let_def)
next
  assume a: "CACHE_TTL \<le> now - lastCacheUpdate r \<and> updateCacheIfNeeded now src r = Inr r'"
  note p = rebuilt_pairs [OF conjunct1 [OF a] conjunct2 [OF a]]
  show "set (getCachedMcps r') =
          mcp_name ` set (case getMcpsCallback src of None \<Rightarrow> [] | Some res \<Rightarrow> fetched res)"
    by (auto simp add: getCachedMcps_def cached_names_pairs p mcps_of_def)
  show "set (getCachedPlugins r') = plugin_name ` set (fetched (getPluginsCallback src))"
    by (auto simp add: getCachedPlugins_def cached_names_pairs p)
  show "set (getCachedSkills r') = skill_name ` set (fetched (getSkillsCallback src))"
    by (auto simp add: getCachedSkills_def cached_names_pairs p)
  show "set (getCachedAgents r') = agent_name ` set (fetched (getAgentsCallback src))"
    by (auto simp add: getCachedAgents_def cached_names_pairs p)
qed

text \<open>
  A rebuild in which the plugin source throws: the MCP server, the skill and the agent
  of the other sources are cached, and no plugin is.
\<close>

theorem refresh_isolates_failing_source_witness:
  "\<exists>r'. updateCacheIfNeeded 60000 sources_example registry_example = Inr r'
     \<and> set (getCachedMcps r') = {ascii ''search''}
     \<and> set (getCachedPlugins r') = {}
     \<and> set (getCachedSkills r') = {ascii ''lint''}
     \<and> set (getCachedAgents r') = {ascii ''Explore''}"
proof -
  obtain r' where r': "updateCacheIfNeeded 60000 sources_example registry_example = Inr r'"
    using conjunct1 [OF refresh_isolates_failing_source] by blast
  have stale: "CACHE_TTL \<le> 60000 - lastCacheUpdate registry_example"
    by (simp add: CACHE_TTL_def registry_example_def)
  show ?thesis
    using r' stale
      conjunct2 [OF conjunct2 [OF refresh_isolates_failing_source
        [of 60000 sources_example registry_example r']]]
    by (simp add: sources_example_def fetched_def)
qed

section \<open>De-duplication\<close>



lemma dedup_single:
  "deduplicateEvents now [e] recent =
     (case map_of recent (eventKey e) of
        None \<Rightarrow> ([e], AList.update (eventKey e) now recent)
      | Some lastSeen \<Rightarrow>
          if now - lastSeen < 3000 then ([], recent)
          else ([e], AList.update (eventKey e) now recent))"
  by (simp add: DUPLICATE_WINDOW_def split: option.splits)

lemma distinct_dedup_single:
  "distinct (map fst recent) \<Longrightarrow> distinct (map fst (snd (deduplicateEvents now [e] recent)))"
  by (simp add: dedup_single distinct_update split: option.splits)





section \<open>Restarting an active item\<close>

lemmas tm = runTimers_def timeoutCallback_def

lemma listener_restarted_fields:
  "activeIds listener_restarted = [(ascii ''foo'', Agent)]
   \<and> activeTimeouts listener_restarted = [(ascii ''foo'', 1)]
   \<and> timers listener_restarted =
       [\<lparr>timer_handle = 0, timer_due = 10000, timer_id = ascii ''foo'', timer_type = Agent\<rparr>,
        \<lparr>timer_handle = 1, timer_due = 15000, timer_id = ascii ''foo'', timer_type = Agent\<rparr>]"
  by (simp add: listener_restarted_def chars classes strs rx pats pars lst)

text \<open>
  C2. A start for an id that is already active arms a second timer and leaves the first
  one armed: the start blocks overwrite the handle in \<open>activeTimeouts\<close> without a
  \<open>clearTimeout\<close>. After \<open>\<bullet> foo\<close> at time 0 and again at time 5000, timers are due at
  10000 and at 15000; the first reports the stop of \<open>foo\<close> at 10000, which is 5000 ms
  after the most recent start, and removes \<open>foo\<close> from the active ids, and the second
  reports a stop of \<open>foo\<close> again at 15000.
\<close>

theorem restart_stacks_timeouts:
  "map timer_due (timers listener_restarted) = [10000, 15000]
   \<and> snd (runTimers 10000 listener_restarted) = [(ascii ''foo'', [], Agent, Stop)]
   \<and> activeIds (fst (runTimers 10000 listener_restarted)) = []
   \<and> snd (runTimers 15000 (fst (runTimers 10000 listener_restarted))) =
       [(ascii ''foo'', [], Agent, Stop)]"
  by (simp add: listener_restarted_fields tm)

section \<open>The event history\<close>

text \<open>
  The start blocks and the end check leave the store alone; an event is appended to the
  array that \<open>eventBuffer\<close> refers to.
\<close>

lemma startBlock_store:
  "arrays (fst (startBlock evt key ty now e acc)) = arrays (fst acc)
   \<and> eventBuffer (fst (startBlock evt key ty now e acc)) = eventBuffer (fst acc)
   \<and> next_ref (fst (startBlock evt key ty now e acc)) = next_ref (fst acc)"
  by (cases acc) (simp add: startBlock_def startItem_def split: js_value.splits)

lemma stop_fold_store:
  "arrays (fst (foldl stopOne (s, ns) ids)) = arrays s
   \<and> eventBuffer (fst (foldl stopOne (s, ns) ids)) = eventBuffer s
   \<and> next_ref (fst (foldl stopOne (s, ns) ids)) = next_ref s"
  by (induction ids arbitrary: s ns) (auto simp add: stopOne_pair)

lemma checkEnd_store:
  "arrays (fst (checkEnd e acc)) = arrays (fst acc)
   \<and> eventBuffer (fst (checkEnd e acc)) = eventBuffer (fst acc)
   \<and> next_ref (fst (checkEnd e acc)) = next_ref (fst acc)"
  by (cases acc) (simp add: checkEnd_def split_def stop_fold_store)

lemma processEvent_store:
  "buffer (fst (processEvent now acc e)) = buffer (fst acc) @ [e]
   \<and> eventBuffer (fst (processEvent now acc e)) = eventBuffer (fst acc)
   \<and> next_ref (fst (processEvent now acc e)) = next_ref (fst acc)"
  by (simp add: processEvent_def pushEvent_def split_def buffer_def checkEnd_store startBlock_store)

lemma fold_store:
  "buffer (fst (foldl (processEvent now) acc us)) = buffer (fst acc) @ us
   \<and> eventBuffer (fst (foldl (processEvent now) acc us)) = eventBuffer (fst acc)
   \<and> next_ref (fst (foldl (processEvent now) acc us)) = next_ref (fst acc)"
  by (induction us arbitrary: acc) (simp_all add: processEvent_store)

lemma trimBuffer_buffer:
  "buffer (trimBuffer s) =
     (if 1000 < length (buffer s) then drop (length (buffer s) - 500) (buffer s) else buffer s)"
  by (simp add: trimBuffer_def buffer_def)

lemma trimBuffer_fresh: "eventBuffer s < next_ref s \<Longrightarrow> eventBuffer (trimBuffer s) < next_ref (trimBuffer s)"
  by (simp add: trimBuffer_def)

lemma buffer_upd: "buffer (s\<lparr>parser := p, recentEvents := r\<rparr>) = buffer s"
  by (simp add: buffer_def)

lemma handler_main:
  assumes "hasRelevantContent data" and "\<not> isUserInput data"
    and "parse (t_parse clk) (parser s) data = (events, p')" and "events \<noteq> []"
    and "deduplicateEvents (t_dedup clk) events (recentEvents s) = (us, r')"
  shows "fst (handleTerminalData clk data s) =
           (trimBuffer (fst (foldl (processEvent (t_arm clk)) (s\<lparr>parser := p', recentEvents := r'\<rparr>, []) us)))
             \<lparr>recentEvents := cleanupDuplicateRecords (t_cleanup clk)
                (recentEvents (trimBuffer (fst (foldl (processEvent (t_arm clk))
                   (s\<lparr>parser := p', recentEvents := r'\<rparr>, []) us))))\<rparr>"
    and "concat (snd (snd (handleTerminalData clk data s))) = us"
  using assms by (simp_all add: handleTerminalData_def Let_def split_def)

lemma handler_skip:
  assumes "\<not> (hasRelevantContent data \<and> \<not> isUserInput data \<and>
             fst (parse (t_parse clk) (parser s) data) \<noteq> [])"
  shows "buffer (fst (handleTerminalData clk data s)) = buffer s"
    and "eventBuffer (fst (handleTerminalData clk data s)) = eventBuffer s"
    and "next_ref (fst (handleTerminalData clk data s)) = next_ref s"
    and "snd (snd (handleTerminalData clk data s)) = []"
  using assms by (auto simp add: handleTerminalData_def buffer_def split: prod.splits)

lemma handler_buffer:
  assumes "length (buffer s) \<le> 1000"
  shows "buffer (fst (handleTerminalData clk data s)) =
     (if 1000 < length (buffer s @ concat (snd (snd (handleTerminalData clk data s))))
      then drop (length (buffer s @ concat (snd (snd (handleTerminalData clk data s)))) - 500)
             (buffer s @ concat (snd (snd (handleTerminalData clk data s))))
      else buffer s @ concat (snd (snd (handleTerminalData clk data s))))"
proof (cases "hasRelevantContent data \<and> \<not> isUserInput data \<and> fst (parse (t_parse clk) (parser s) data) \<noteq> []")
  case False
  then show ?thesis
    using assms handler_skip(1) [OF False] handler_skip(4) [OF False] by simp
next
  case True
  obtain events p' where p: "parse (t_parse clk) (parser s) data = (events, p')"
    by (cases "parse (t_parse clk) (parser s) data")
  obtain us r' where d: "deduplicateEvents (t_dedup clk) events (recentEvents s) = (us, r')"
    by (cases "deduplicateEvents (t_dedup clk) events (recentEvents s)")
  from True p have ne: "events \<noteq> []" by simp
  note m = handler_main [OF conjunct1 [OF True] conjunct1 [OF conjunct2 [OF True]] p ne d]
  have b: "buffer (fst (foldl (processEvent (t_arm clk)) (s\<lparr>parser := p', recentEvents := r'\<rparr>, []) us))
             = buffer s @ us"
    using conjunct1 [OF fold_store [of "t_arm clk" "(s\<lparr>parser := p', recentEvents := r'\<rparr>, [])" us]]
    by (simp add: buffer_upd)
  have "buffer (fst (handleTerminalData clk data s)) =
          buffer (trimBuffer (fst (foldl (processEvent (t_arm clk)) (s\<lparr>parser := p', recentEvents := r'\<rparr>, []) us)))"
    by (simp add: m(1) buffer_def)
  then show ?thesis
    by (simp add: trimBuffer_buffer b m(2))
qed

lemma handler_fresh:
  assumes "eventBuffer s < next_ref s"
  shows "eventBuffer (fst (handleTerminalData clk data s)) < next_ref (fst (handleTerminalData clk data s))"
proof (cases "hasRelevantContent data \<and> \<not> isUserInput data \<and> fst (parse (t_parse clk) (parser s) data) \<noteq> []")
  case False
  then show ?thesis
    using assms handler_skip(2) [OF False] handler_skip(3) [OF False] by simp
next
  case True
  obtain events p' where p: "parse (t_parse clk) (parser s) data = (events, p')"
    by (cases "parse (t_parse clk) (parser s) data")
  obtain us r' where d: "deduplicateEvents (t_dedup clk) events (recentEvents s) = (us, r')"
    by (cases "deduplicateEvents (t_dedup clk) events (recentEvents s)")
  from True p have ne: "events \<noteq> []" by simp
  note m = handler_main [OF conjunct1 [OF True] conjunct1 [OF conjunct2 [OF True]] p ne d]
  have "eventBuffer (fst (foldl (processEvent (t_arm clk)) (s\<lparr>parser := p', recentEvents := r'\<rparr>, []) us))
          < next_ref (fst (foldl (processEvent (t_arm clk)) (s\<lparr>parser := p', recentEvents := r'\<rparr>, []) us))"
    using fold_store [of "t_arm clk" "(s\<lparr>parser := p', recentEvents := r'\<rparr>, [])" us] assms
    by simp
  then show ?thesis
    using trimBuffer_fresh by (simp add: m(1))
qed

lemma run_append: "run (xs @ ys) s = run ys (run xs s)"
  by (induction xs arbitrary: s) simp_all

lemma emitted_append: "emitted (xs @ ys) s = emitted xs s @ emitted ys (run xs s)"
  by (induction xs arbitrary: s) simp_all

lemma length_emitted: "length (emitted steps s) = length steps"
  by (induction steps arbitrary: s) simp_all

lemma run_fresh: "eventBuffer s < next_ref s \<Longrightarrow> eventBuffer (run steps s) < next_ref (run steps s)"
  by (induction steps arbitrary: s) (simp_all add: handler_fresh)

lemma run_below_capacity:
  assumes "list_all (\<lambda>b. length b = 1) (emitted steps s)"
    and "length (buffer s) + length steps \<le> 1000"
  shows "buffer (run steps s) = buffer s @ concat (emitted steps s)"
  using assms
proof (induction steps arbitrary: s)
  case Nil
  then show ?case by simp
next
  case (Cons step steps)
  let ?h = "handleTerminalData (fst step) (snd step) s"
  from Cons.prems(1) have one: "length (concat (snd (snd ?h))) = 1"
    and rest: "list_all (\<lambda>b. length b = 1) (emitted steps (fst ?h))"
    by simp_all
  from Cons.prems(2) have le: "length (buffer s) \<le> 1000" by simp
  have b: "buffer (fst ?h) = buffer s @ concat (snd (snd ?h))"
    using handler_buffer [OF le, of "fst step" "snd step"] one Cons.prems(2) by simp
  have "length (buffer (fst ?h)) + length steps \<le> 1000"
    using b one Cons.prems(2) by simp
  then show ?case
    using Cons.IH [OF rest] b by simp
qed

lemma getEvents_copy:
  assumes "eventBuffer s < next_ref s"
  shows "arrays (snd (getEvents s)) (fst (getEvents s)) = buffer s"
    and "buffer (snd (getEvents s)) = buffer s"
    and "buffer (mutateArray (fst (getEvents s)) xs (snd (getEvents s))) = buffer s"
  using assms by (simp_all add: getEvents_def mutateArray_def buffer_def)

lemma new_fresh: "eventBuffer new_TerminalListener < next_ref new_TerminalListener"
  by (simp add: new_TerminalListener_def)

lemma new_buffer: "buffer new_TerminalListener = []"
  by (simp add: new_TerminalListener_def buffer_def)

lemma length_concat_singletons:
  "list_all (\<lambda>b. length b = 1) xs \<Longrightarrow> length (concat xs) = length xs"
  by (induction xs) simp_all

text \<open>
  C5. In a run of 1001 passes from a new listener in which every pass emits one event,
  the buffer holds 1000 events after the first 1000 passes, and after the last pass it
  holds the emitted events without the oldest 501, that is 500 events: the pass that takes
  the buffer over 1000 entries trims it once. \<open>getEvents\<close> then returns a new array with
  the contents of the buffer, so of length 500, and leaves the buffer as it is; whatever
  a caller stores in that array, the buffer stays the same.
\<close>

theorem history_trimmed_to_500_after_1001:
  "length steps = 1001 \<and> list_all (\<lambda>b. length b = 1) (emitted steps new_TerminalListener) \<longrightarrow>
     length (buffer (run (take 1000 steps) new_TerminalListener)) = 1000
   \<and> buffer (run steps new_TerminalListener) = drop 501 (concat (emitted steps new_TerminalListener))
   \<and> length (buffer (run steps new_TerminalListener)) = 500
   \<and> arrays (snd (getEvents (run steps new_TerminalListener)))
        (fst (getEvents (run steps new_TerminalListener))) = buffer (run steps new_TerminalListener)
   \<and> buffer (snd (getEvents (run steps new_TerminalListener))) = buffer (run steps new_TerminalListener)
   \<and> buffer (mutateArray (fst (getEvents (run steps new_TerminalListener))) xs
        (snd (getEvents (run steps new_TerminalListener)))) = buffer (run steps new_TerminalListener)"
proof
  assume a: "length steps = 1001 \<and> list_all (\<lambda>b. length b = 1) (emitted steps new_TerminalListener)"
  define front where "front = take 1000 steps"
  define s1 where "s1 = run front new_TerminalListener"
  have "length (drop 1000 steps) = 1"
    using a by simp
  then obtain step where "drop 1000 steps = [step]"
    by (cases "drop 1000 steps") auto
  then have steps: "steps = front @ [step]"
    using append_take_drop_id [of 1000 steps] by (simp add: front_def)
  have lf: "length front = 1000"
    using a by (simp add: front_def)
  have em: "emitted steps new_TerminalListener = emitted front new_TerminalListener @ emitted [step] s1"
    by (simp add: steps emitted_append s1_def)
  from a em have ones: "list_all (\<lambda>b. length b = 1) (emitted front new_TerminalListener)"
    and one: "length (concat (snd (snd (handleTerminalData (fst step) (snd step) s1)))) = 1"
    by simp_all
  have b1: "buffer s1 = concat (emitted front new_TerminalListener)"
    using run_below_capacity [OF ones] lf by (simp add: new_buffer s1_def)
  have l1: "length (buffer s1) = 1000"
    using length_concat_singletons [OF ones] lf by (simp add: b1 length_emitted)
  have r: "run steps new_TerminalListener = fst (handleTerminalData (fst step) (snd step) s1)"
    by (simp add: steps run_append s1_def)
  have le: "length (buffer s1) \<le> 1000"
    using l1 by simp
  have b: "buffer (run steps new_TerminalListener) =
      drop 501 (buffer s1 @ concat (snd (snd (handleTerminalData (fst step) (snd step) s1))))"
    using handler_buffer [OF le, of "fst step" "snd step"] one l1 by (simp add: r)
  have fresh: "eventBuffer (run steps new_TerminalListener) < next_ref (run steps new_TerminalListener)"
    using run_fresh [OF new_fresh] .
  have c1: "length (buffer (run (take 1000 steps) new_TerminalListener)) = 1000"
    using l1 by (simp add: s1_def front_def)
  have c2: "buffer (run steps new_TerminalListener) = drop 501 (concat (emitted steps new_TerminalListener))"
    by (simp add: b em b1)
  have c3: "length (buffer (run steps new_TerminalListener)) = 500"
    using one l1 by (simp add: b)
  show "length (buffer (run (take 1000 steps) new_TerminalListener)) = 1000
   \<and> buffer (run steps new_TerminalListener) = drop 501 (concat (emitted steps new_TerminalListener))
   \<and> length (buffer (run steps new_TerminalListener)) = 500
   \<and> arrays (snd (getEvents (run steps new_TerminalListener)))
        (fst (getEvents (run steps new_TerminalListener))) = buffer (run steps new_TerminalListener)
   \<and> buffer (snd (getEvents (run steps new_TerminalListener))) = buffer (run steps new_TerminalListener)
   \<and> buffer (mutateArray (fst (getEvents (run steps new_TerminalListener))) xs
        (snd (getEvents (run steps new_TerminalListener)))) = buffer (run steps new_TerminalListener)"
    using c1 c2 c3 getEvents_copy [OF fresh] by simp
qed

text \<open>
  The chunk \<open>[Bash] ls\<close> given 1001 times, 3000 ms apart, so that no pass is suppressed
  as a repeat: every pass emits its tool call.
\<close>

lemma parse_bash: "parse ts p bash_chunk = ([bash_event ts], p)"
  by (simp add: bash_chunk_def bash_event_def chars classes strs rx pats pars)

lemma bash_relevant: "hasRelevantContent bash_chunk \<and> \<not> isUserInput bash_chunk"
  by (simp add: bash_chunk_def hasRelevantContent_def quickPatterns_def isUserInput_def
        chars classes strs rx)

lemma bash_key: "eventKey (bash_event ts) = ascii ''tool_call:ls''"
  by (simp add: bash_event_def eventKey_def event_type_name_def ascii_def)

lemma bash_not_end: "isEndSignal (ev_content (bash_event ts)) = False"
  by (simp add: bash_event_def isEndSignal_def endPatterns_def lit_ci_def chars classes strs rx)

lemma bash_processEvent:
  "processEvent now (s, ns) (bash_event ts) =
     (s\<lparr>arrays := (arrays s)(eventBuffer s := arrays s (eventBuffer s) @ [bash_event ts])\<rparr>, ns)"
  by (simp add: processEvent_def startBlock_def checkEnd_def pushEvent_def bash_not_end)
     (simp add: bash_event_def)

lemma bash_step:
  assumes "recentEvents s = [] \<or> (\<exists>t0. recentEvents s = [(ascii ''tool_call:ls'', t0)] \<and> t0 + 3000 \<le> t)"
  shows "snd (snd (handleTerminalData (clock_at t) bash_chunk s)) = [[bash_event t]]"
    and "recentEvents (fst (handleTerminalData (clock_at t) bash_chunk s)) = [(ascii ''tool_call:ls'', t)]"
proof -
  have d: "deduplicateEvents t [bash_event t] (recentEvents s) = ([bash_event t], [(ascii ''tool_call:ls'', t)])"
    using assms by (auto simp add: bash_key DUPLICATE_WINDOW_def)
  note m = handler_main [of bash_chunk "clock_at t" s "[bash_event t]" "parser s" "[bash_event t]"
      "[(ascii ''tool_call:ls'', t)]"]
  have c: "concat (snd (snd (handleTerminalData (clock_at t) bash_chunk s))) = [bash_event t]"
    using m(2) bash_relevant parse_bash d by (simp add: clock_at_def)
  have "length (snd (snd (handleTerminalData (clock_at t) bash_chunk s))) \<le> 1"
    by (simp add: handleTerminalData_def Let_def split_def)
  then show "snd (snd (handleTerminalData (clock_at t) bash_chunk s)) = [[bash_event t]]"
    using c by (cases "snd (snd (handleTerminalData (clock_at t) bash_chunk s))") auto
  have "fst (handleTerminalData (clock_at t) bash_chunk s) =
           (trimBuffer (fst (foldl (processEvent t) (s\<lparr>parser := parser s, recentEvents := [(ascii ''tool_call:ls'', t)]\<rparr>, []) [bash_event t])))
             \<lparr>recentEvents := cleanupDuplicateRecords t
                (recentEvents (trimBuffer (fst (foldl (processEvent t)
                   (s\<lparr>parser := parser s, recentEvents := [(ascii ''tool_call:ls'', t)]\<rparr>, []) [bash_event t]))))\<rparr>"
    using m(1) bash_relevant parse_bash d by (simp add: clock_at_def)
  then show "recentEvents (fst (handleTerminalData (clock_at t) bash_chunk s)) = [(ascii ''tool_call:ls'', t)]"
    by (simp add: bash_processEvent trimBuffer_def cleanupDuplicateRecords_def DUPLICATE_WINDOW_def)
qed

lemma emitted_bash_steps:
  assumes "recentEvents s = [] \<or>
           (\<exists>t0. recentEvents s = [(ascii ''tool_call:ls'', t0)] \<and> t0 + 3000 \<le> 3000 * int k)"
  shows "list_all (\<lambda>b. length b = 1) (emitted (bash_steps k n) s)"
  using assms
proof (induction n arbitrary: k s)
  case 0
  then show ?case by simp
next
  case (Suc n)
  note st = bash_step [OF Suc.prems]
  have "recentEvents (fst (handleTerminalData (clock_at (3000 * int k)) bash_chunk s)) = [] \<or>
           (\<exists>t0. recentEvents (fst (handleTerminalData (clock_at (3000 * int k)) bash_chunk s)) =
                   [(ascii ''tool_call:ls'', t0)] \<and> t0 + 3000 \<le> 3000 * int (Suc k))"
    using st(2) by simp
  then show ?case
    using Suc.IH st(1) by simp
qed

lemma length_bash_steps: "length (bash_steps k n) = n"
  by (induction n arbitrary: k) simp_all

theorem history_trimmed_to_500_after_1001_witness:
  "length (buffer (run (bash_steps 0 1001) new_TerminalListener)) = 500
   \<and> length (arrays (snd (getEvents (run (bash_steps 0 1001) new_TerminalListener)))
        (fst (getEvents (run (bash_steps 0 1001) new_TerminalListener)))) = 500
   \<and> length (buffer (mutateArray (fst (getEvents (run (bash_steps 0 1001) new_TerminalListener))) []
        (snd (getEvents (run (bash_steps 0 1001) new_TerminalListener))))) = 500"
proof -
  have h1: "length (bash_steps 0 1001) = 1001"
    by (rule length_bash_steps)
  have h2: "list_all (\<lambda>b. length b = 1) (emitted (bash_steps 0 1001) new_TerminalListener)"
    by (rule emitted_bash_steps) (simp add: new_TerminalListener_def)
  note c = mp [OF history_trimmed_to_500_after_1001 [of "bash_steps 0 1001" "[]"] conjI [OF h1 h2]]
  have l: "length (buffer (run (bash_steps 0 1001) new_TerminalListener)) = 500"
    using c by blast
  have cp: "arrays (snd (getEvents (run (bash_steps 0 1001) new_TerminalListener)))
        (fst (getEvents (run (bash_steps 0 1001) new_TerminalListener))) =
        buffer (run (bash_steps 0 1001) new_TerminalListener)"
    using c by blast
  have mu: "buffer (mutateArray (fst (getEvents (run (bash_steps 0 1001) new_TerminalListener))) []
        (snd (getEvents (run (bash_steps 0 1001) new_TerminalListener)))) =
        buffer (run (bash_steps 0 1001) new_TerminalListener)"
    using c by blast
  show ?thesis
    by (simp only: l cp mu)
qed

section \<open>End-of-execution signals\<close>



lemma stop_fold_activeIds:
  "activeIds (fst (foldl stopOne (s, ns) ids)) = activeIds s"
  by (induction ids arbitrary: s ns) (auto simp add: stopOne_pair)


























lemma armed_iff: "armed i s = (\<exists>t \<in> set (timers s). timer_id t = i)"
  by (simp add: armed_def list_ex_iff)

lemma only_recorded_iff:
  "only_recorded i s =
     (\<forall>t \<in> set (timers s). timer_id t = i \<longrightarrow> map_of (activeTimeouts s) i = Some (timer_handle t))"
  by (auto simp add: only_recorded_def list_all_iff)

lemma not_armed_recorded: "\<not> armed i s \<Longrightarrow> only_recorded i s"
  by (auto simp add: armed_iff only_recorded_iff)



















lemma gone_single: "gone i s \<Longrightarrow> single_timeout i s"
  by (simp add: gone_def single_timeout_def not_armed_recorded)




























end
